theory Spec2Isabelle
  imports Complex_Main
begin

section \<open>Errors and fallible computations\<close>

text \<open>
  Every Python exception that \<^verbatim>\<open>datasets/coco.py\<close> can raise is a value. A fallible
  computation returns \<open>error + 'a\<close>, with \<open>Inl\<close> for the raised exception.
\<close>

datatype error =
    KeyError string
  | ValueError string
  | RuntimeError
  | IndexError
  | TypeError

definition bind_err :: "error + 'a \<Rightarrow> ('a \<Rightarrow> error + 'b) \<Rightarrow> error + 'b" where
  "bind_err m f = (case m of Inl e \<Rightarrow> Inl e | Inr x \<Rightarrow> f x)"

text \<open>A list comprehension whose body may raise: the first exception aborts the whole list.\<close>

fun map_err :: "('a \<Rightarrow> error + 'b) \<Rightarrow> 'a list \<Rightarrow> error + 'b list" where
  "map_err f [] = Inr []"
| "map_err f (x # xs) =
     (case f x of
        Inl e \<Rightarrow> Inl e
      | Inr y \<Rightarrow> (case map_err f xs of Inl e \<Rightarrow> Inl e | Inr ys \<Rightarrow> Inr (y # ys)))"

text \<open>\<^verbatim>\<open>obj[key]\<close> on a dictionary whose key may be absent.\<close>

definition getitem :: "string \<Rightarrow> 'v option \<Rightarrow> error + 'v" where
  "getitem key field = (case field of None \<Rightarrow> Inl (KeyError key) | Some v \<Rightarrow> Inr v)"

section \<open>Tensors\<close>

text \<open>
  A tensor is kept as the list of its entries along dimension 0 together with the
  remaining (trailing) dimensions, so that a tensor with no entries still has a shape.
\<close>

record 'a tensor =
  trailing :: "nat list"
  items :: "'a list"

definition shape :: "'a tensor \<Rightarrow> nat list" where
  "shape t = length (items t) # trailing t"

text \<open>\<^verbatim>\<open>torch.tensor(xs)\<close> of a flat Python list: a one-dimensional tensor.\<close>

definition tensor1 :: "'a list \<Rightarrow> 'a tensor" where
  "tensor1 xs = \<lparr>trailing = [], items = xs\<rparr>"

text \<open>
  A Python number (an int or a double) is a real number. \<^verbatim>\<open>dtype=torch.float32\<close> rounds
  it to the nearest number with a significand of 24 bits, ties to the even significand;
  below \<open>2 ^ - 126\<close> the spacing stays \<open>2 ^ - 149\<close>. The sum of two \<^verbatim>\<open>float32\<close>
  numbers is the exact sum rounded in the same way. Magnitudes from \<open>2 ^ 128\<close> on, which
  torch turns into infinities, are outside this model.
\<close>

definition pow2 :: "int \<Rightarrow> real" where
  "pow2 e = (if 0 \<le> e then 2 ^ nat e else 1 / 2 ^ nat (- e))"

definition round_half_even :: "real \<Rightarrow> int" where
  "round_half_even r =
     (let f = \<lfloor>r\<rfloor> in
      if r - of_int f < 1 / 2 then f
      else if 1 / 2 < r - of_int f then f + 1
      else if even f then f else f + 1)"

definition float32 :: "real \<Rightarrow> real" where
  "float32 x =
     (if x = 0 then 0
      else let e = max \<lfloor>log 2 \<bar>x\<bar>\<rfloor> (- 126) - 23
           in of_int (round_half_even (x / pow2 e)) * pow2 e)"

text \<open>
  \<^verbatim>\<open>torch.as_tensor(xss, dtype=...)\<close> of a list of lists: the rows must all have the same
  length, otherwise torch raises \<^verbatim>\<open>ValueError\<close>; every entry is converted to the dtype.
\<close>

definition as_tensor :: "('a \<Rightarrow> 'b) \<Rightarrow> 'a list list \<Rightarrow> error + 'b list list" where
  "as_tensor dtype xss =
     (case xss of
        [] \<Rightarrow> Inr []
      | xs # _ \<Rightarrow>
          if list_all (\<lambda>ys. length ys = length xs) xss then Inr (map (map dtype) xss)
          else Inl (ValueError ''expected sequence of equal length''))"

function chunks :: "nat \<Rightarrow> 'a list \<Rightarrow> 'a list list" where
  "chunks n xs = (if n = 0 \<or> xs = [] then [] else take n xs # chunks n (drop n xs))"
  by pat_completeness auto
termination
  by (relation "measure (\<lambda>(n, xs). length xs)") auto

declare chunks.simps [simp del]

text \<open>
  \<^verbatim>\<open>t.reshape(-1, k)\<close> on row-major data: the number of elements must be a multiple of
  \<open>k\<close>, otherwise torch raises \<^verbatim>\<open>RuntimeError\<close>; no elements give shape \<open>(0, k)\<close>.
\<close>

definition reshape_rows :: "nat \<Rightarrow> 'a list \<Rightarrow> error + 'a list tensor" where
  "reshape_rows k flat =
     (if length flat mod k \<noteq> 0 then Inl RuntimeError
      else Inr \<lparr>trailing = [k], items = chunks k flat\<rparr>)"

text \<open>
  \<^verbatim>\<open>t[keep]\<close> with a one-dimensional boolean mask: the mask must be as long as
  dimension 0 of the tensor, otherwise torch raises \<^verbatim>\<open>IndexError\<close>; the entries whose
  mask bit is set survive, in order, and the trailing dimensions are kept.
\<close>

definition select :: "bool list \<Rightarrow> 'a list \<Rightarrow> 'a list" where
  "select keep xs = map snd (filter fst (zip keep xs))"

definition index_mask :: "'a tensor \<Rightarrow> bool list \<Rightarrow> error + 'a tensor" where
  "index_mask t keep =
     (if length keep \<noteq> length (items t) then Inl IndexError
      else Inr (t\<lparr>items := select keep (items t)\<rparr>))"

section \<open>Raw annotations, images and targets\<close>

text \<open>
  A raw annotation is a Python dictionary; a key that may be absent is an option.
  \<open>'seg\<close> is the type of the segmentation (polygons or RLE) read by the rasterizer.
\<close>

record 'seg raw_annotation =
  bbox :: "real list option"
  category_id :: "int option"
  area :: "real option"
  iscrowd :: "int option"
  segmentation :: "'seg option"
  keypoints :: "real list option"

text \<open>\<^verbatim>\<open>image.size\<close> is \<open>(width, height)\<close>; the pixels play no role here.\<close>

record image =
  img_width :: nat
  img_height :: nat

record target =
  t_boxes :: "real list tensor"
  t_labels :: "int tensor"
  t_masks :: "bool list list tensor option"
  t_image_id :: "int tensor"
  t_keypoints :: "real list list tensor option"
  t_area :: "real tensor"
  t_iscrowd :: "int tensor"
  t_orig_size :: "nat tensor"
  t_size :: "nat tensor"

section \<open>Polygon masks\<close>

text \<open>
  \<^verbatim>\<open>coco_mask.decode(coco_mask.frPyObjects(polygons, height, width))\<close> belongs to
  pycocotools and is a parameter \<open>rast\<close> of the model. It returns an array of
  \<^verbatim>\<open>uint8\<close> with two or three dimensions, given as nested lists.
\<close>

datatype ndarray = Arr2 "nat list list" | Arr3 "nat list list list"

text \<open>\<^verbatim>\<open>if len(mask.shape) < 3: mask = mask[..., None]\<close>, then \<^verbatim>\<open>mask.any(dim=2)\<close>.\<close>

definition expand_last :: "ndarray \<Rightarrow> nat list list list" where
  "expand_last a = (case a of Arr2 m \<Rightarrow> map (map (\<lambda>v. [v])) m | Arr3 m \<Rightarrow> m)"

definition any_dim2 :: "nat list list list \<Rightarrow> bool list list" where
  "any_dim2 m = map (map (list_ex (\<lambda>v. v \<noteq> 0))) m"

definition shape2 :: "'a list list \<Rightarrow> nat list" where
  "shape2 m = [length m, (case m of [] \<Rightarrow> 0 | r # _ \<Rightarrow> length r)]"

text \<open>
  \<^verbatim>\<open>torch.stack(masks, dim=0)\<close> needs all masks of one shape (\<^verbatim>\<open>RuntimeError\<close>
  otherwise); without masks the result is \<^verbatim>\<open>torch.zeros((0, height, width))\<close>.
\<close>

definition convert_coco_poly_to_mask ::
  "('seg \<Rightarrow> nat \<Rightarrow> nat \<Rightarrow> ndarray) \<Rightarrow> 'seg list \<Rightarrow> nat \<Rightarrow> nat \<Rightarrow> error + bool list list tensor" where
  "convert_coco_poly_to_mask rast segmentations height width =
     (let masks = map (\<lambda>polygons. any_dim2 (expand_last (rast polygons height width))) segmentations
      in case masks of
           [] \<Rightarrow> Inr \<lparr>trailing = [height, width], items = []\<rparr>
         | m # _ \<Rightarrow>
             if list_all (\<lambda>m'. shape2 m' = shape2 m) masks
             then Inr \<lparr>trailing = shape2 m, items = masks\<rparr>
             else Inl RuntimeError)"

section \<open>The annotation normalizer\<close>

text \<open>\<^verbatim>\<open>[obj for obj in anno if 'iscrowd' not in obj or obj['iscrowd'] == 0]\<close>\<close>

definition not_crowd :: "('seg, 'x) raw_annotation_scheme \<Rightarrow> bool" where
  "not_crowd obj = (case iscrowd obj of None \<Rightarrow> True | Some c \<Rightarrow> c = 0)"

text \<open>\<^verbatim>\<open>boxes[:, 2:] += boxes[:, :2]\<close>, on one row.\<close>

definition add_corner :: "real list \<Rightarrow> real list" where
  "add_corner r = take 2 r @ map2 (\<lambda>a b. float32 (a + b)) (drop 2 r) (take 2 r)"

text \<open>\<^verbatim>\<open>x.clamp_(min=lo, max=hi)\<close> computes \<open>min (max x lo) hi\<close>.\<close>

definition clamp :: "real \<Rightarrow> real \<Rightarrow> real \<Rightarrow> real" where
  "clamp lo hi x = min (max x lo) hi"

text \<open>
  \<^verbatim>\<open>boxes[:, 0::2].clamp_(min=0, max=w)\<close> and \<^verbatim>\<open>boxes[:, 1::2].clamp_(min=0, max=h)\<close>,
  on one row: the slices are views, so the row itself is changed. The bounds are
  converted to the dtype of the tensor.
\<close>

definition clamp_even :: "nat \<Rightarrow> real list \<Rightarrow> real list" where
  "clamp_even w r =
     map (\<lambda>(i, v). if even i then clamp 0 (float32 (real w)) v else v) (enumerate 0 r)"

definition clamp_odd :: "nat \<Rightarrow> real list \<Rightarrow> real list" where
  "clamp_odd h r =
     map (\<lambda>(i, v). if odd i then clamp 0 (float32 (real h)) v else v) (enumerate 0 r)"

definition convert_row :: "nat \<Rightarrow> nat \<Rightarrow> real list \<Rightarrow> real list" where
  "convert_row w h r = clamp_odd h (clamp_even w (add_corner r))"

text \<open>
  Lines 85 to 90: the boxes tensor before the degenerate boxes are dropped.
\<close>

definition make_boxes ::
  "nat \<Rightarrow> nat \<Rightarrow> ('seg, 'x) raw_annotation_scheme list \<Rightarrow> error + real list tensor" where
  "make_boxes w h anno =
     bind_err (map_err (\<lambda>obj. getitem ''bbox'' (bbox obj)) anno) (\<lambda>bs.
     bind_err (as_tensor float32 bs) (\<lambda>rows.
     bind_err (reshape_rows 4 (concat rows)) (\<lambda>boxes.
     Inr (boxes\<lparr>items := map (convert_row w h) (items boxes)\<rparr>))))"

text \<open>
  \<^verbatim>\<open>keep = (boxes[:, 3] > boxes[:, 1]) & (boxes[:, 2] > boxes[:, 0])\<close>, on one row. Every row
  of the boxes tensor has four columns, so the four reads are in range.
\<close>

definition keep_row :: "real list \<Rightarrow> bool" where
  "keep_row r = (r ! 3 > r ! 1 \<and> r ! 2 > r ! 0)"

text \<open>
  Lines 99 to 105. In the branch taken, \<^verbatim>\<open>anno\<close> is not empty, so \<^verbatim>\<open>num_keypoints\<close> is
  positive and \<^verbatim>\<open>keypoints.view(num_keypoints, -1, 3)\<close> always runs: the common row
  length must be a multiple of 3.
\<close>

definition make_keypoints ::
  "('seg, 'x) raw_annotation_scheme list \<Rightarrow> error + real list list tensor option" where
  "make_keypoints anno =
     (case anno of
        [] \<Rightarrow> Inr None
      | obj0 # _ \<Rightarrow>
          (case keypoints obj0 of
             None \<Rightarrow> Inr None
           | Some k0 \<Rightarrow>
               bind_err (map_err (\<lambda>obj. getitem ''keypoints'' (keypoints obj)) anno) (\<lambda>ks.
               bind_err (as_tensor float32 ks) (\<lambda>rows.
               if length k0 mod 3 \<noteq> 0 then Inl RuntimeError
               else Inr (Some \<lparr>trailing = [length k0 div 3, 3],
                               items = map (chunks 3) rows\<rparr>)))))"

definition index_mask_opt :: "'a tensor option \<Rightarrow> bool list \<Rightarrow> error + 'a tensor option" where
  "index_mask_opt t keep =
     (case t of None \<Rightarrow> Inr None | Some m \<Rightarrow> bind_err (index_mask m keep) (\<lambda>m'. Inr (Some m')))"

text \<open>
  \<^verbatim>\<open>ConvertCocoPolysToMask.__call__(image, target)\<close> with
  \<^verbatim>\<open>target = {'image_id': image_id, 'annotations': annotations}\<close>. The statements run in
  the order of the source, so the first exception raised there is the result here.
  The values of \<^verbatim>\<open>area\<close> are kept as they are given: \<^verbatim>\<open>torch.tensor\<close> takes the dtype
  from the Python values.
\<close>

definition ConvertCocoPolysToMask_call ::
  "('seg \<Rightarrow> nat \<Rightarrow> nat \<Rightarrow> ndarray) \<Rightarrow> bool \<Rightarrow> image \<Rightarrow> int \<Rightarrow>
     ('seg, 'x) raw_annotation_scheme list \<Rightarrow> error + image \<times> target" where
  "ConvertCocoPolysToMask_call rast return_masks img image_id annotations =
     (let w = img_width img; h = img_height img;
          anno = filter not_crowd annotations
      in
      bind_err (make_boxes w h anno) (\<lambda>boxes.
      bind_err (map_err (\<lambda>obj. getitem ''category_id'' (category_id obj)) anno) (\<lambda>classes.
      bind_err (if return_masks
                then bind_err (map_err (\<lambda>obj. getitem ''segmentation'' (segmentation obj)) anno)
                       (\<lambda>segmentations.
                     bind_err (convert_coco_poly_to_mask rast segmentations h w)
                       (\<lambda>masks. Inr (Some masks)))
                else Inr None) (\<lambda>masks.
      bind_err (make_keypoints anno) (\<lambda>kps.
      let keep = map keep_row (items boxes) in
      bind_err (index_mask boxes keep) (\<lambda>boxes'.
      bind_err (index_mask (tensor1 classes) keep) (\<lambda>classes'.
      bind_err (index_mask_opt masks keep) (\<lambda>masks'.
      bind_err (index_mask_opt kps keep) (\<lambda>kps'.
      bind_err (map_err (\<lambda>obj. getitem ''area'' (area obj)) anno) (\<lambda>areas.
      let crowds = map (\<lambda>obj. case iscrowd obj of Some c \<Rightarrow> c | None \<Rightarrow> 0) anno in
      bind_err (index_mask (tensor1 areas) keep) (\<lambda>area'.
      bind_err (index_mask (tensor1 crowds) keep) (\<lambda>iscrowd'.
      Inr (img,
           \<lparr>t_boxes = boxes', t_labels = classes', t_masks = masks',
            t_image_id = tensor1 [image_id], t_keypoints = kps',
            t_area = area', t_iscrowd = iscrowd',
            t_orig_size = tensor1 [h, w], t_size = tensor1 [h, w]\<rparr>)))))))))))))"

section \<open>Augmentation pipelines\<close>

text \<open>
  The transforms of \<^verbatim>\<open>datasets.transforms\<close> are built here and run elsewhere: a pipeline
  is the tree of constructor calls. A size is one side length or a pair; \<open>max_size\<close> is
  either left to the default of \<^verbatim>\<open>RandomResize\<close> or passed.
\<close>

datatype size_spec = Side nat | Pair nat nat

datatype max_size_arg = Default_max_size | Max_size "nat option"

datatype transform =
    Compose "transform list"
  | RandomHorizontalFlip
  | RandomSelect transform transform
  | RandomResize "size_spec list" max_size_arg
  | RandomSizeCrop nat nat
  | ToTensor
  | Normalize "real list" "real list"

definition normalize :: transform where
  "normalize = Compose [ToTensor,
     Normalize [485 / 1000, 456 / 1000, 406 / 1000] [229 / 1000, 224 / 1000, 225 / 1000]]"

definition scales :: "size_spec list" where
  "scales = map Side [480, 512, 544, 576, 608, 640, 672, 704, 736, 768, 800]"

definition make_coco_transforms :: "string \<Rightarrow> bool \<Rightarrow> error + transform" where
  "make_coco_transforms image_set fix_size =
     (if image_set = ''train'' then
        Inr (Compose [
          RandomHorizontalFlip,
          RandomSelect
            (RandomResize scales (Max_size (Some 1333)))
            (Compose [
               RandomResize (map Side [400, 500, 600]) Default_max_size,
               RandomSizeCrop 384 600,
               RandomResize scales (Max_size (Some 1333))]),
          normalize])
      else if image_set = ''extra'' then
        (if fix_size then
           Inr (Compose [
             RandomHorizontalFlip,
             RandomResize [Pair 600 600] (Max_size None),
             normalize])
         else Inr (Compose [normalize]))
      else if image_set = ''val'' then
        Inr (Compose [RandomResize [Side 800] (Max_size (Some 1333)), normalize])
      else Inl (ValueError (''unknown '' @ image_set)))"

text \<open>Whether a flip step occurs anywhere in a pipeline.\<close>

fun has_flip :: "transform \<Rightarrow> bool" where
  "has_flip (Compose ts) = list_ex has_flip ts"
| "has_flip RandomHorizontalFlip = True"
| "has_flip (RandomSelect a b) = (has_flip a \<or> has_flip b)"
| "has_flip (RandomResize sizes m) = False"
| "has_flip (RandomSizeCrop lo hi) = False"
| "has_flip ToTensor = False"
| "has_flip (Normalize mean std) = False"

section \<open>The dataset view\<close>

text \<open>
  \<^verbatim>\<open>TvCocoDetection\<close> is the base class, outside this file. Of the object it
  initialises, this file reads the image ids and the category catalog \<^verbatim>\<open>self.coco.cats\<close>.
  Its constructor is a parameter: it receives \<^verbatim>\<open>ids_list\<close> and \<^verbatim>\<open>class_ids\<close> and may raise.
\<close>

record 'meta tv_dataset =
  ids :: "int list"
  coco_cats :: "int \<rightharpoonup> 'meta"

record 'meta coco_detection = "'meta tv_dataset" +
  transforms :: "transform option"
  prepare :: bool

text \<open>
  Lines 33 to 38: the loop over \<^verbatim>\<open>class_ids\<close>, in iteration order; a \<^verbatim>\<open>KeyError\<close> of the
  lookup is caught and the id is passed over.
\<close>

fun cats_loop :: "(int \<rightharpoonup> 'meta) \<Rightarrow> int list \<Rightarrow> (int \<rightharpoonup> 'meta) \<Rightarrow> (int \<rightharpoonup> 'meta)" where
  "cats_loop src [] cats = cats"
| "cats_loop src (class_id # rest) cats =
     cats_loop src rest
       (case src class_id of Some m \<Rightarrow> cats(class_id \<mapsto> m) | None \<Rightarrow> cats)"

text \<open>
  \<^verbatim>\<open>CocoDetection.__init__\<close>. \<^verbatim>\<open>class_ids\<close> defaults to \<^verbatim>\<open>None\<close>, and
  \<^verbatim>\<open>for class_id in None\<close> raises \<^verbatim>\<open>TypeError\<close>.
\<close>

definition CocoDetection_init ::
  "(int list option \<Rightarrow> int list option \<Rightarrow> error + 'meta tv_dataset) \<Rightarrow> transform option \<Rightarrow> bool \<Rightarrow>
     int list option \<Rightarrow> int list option \<Rightarrow> error + 'meta coco_detection" where
  "CocoDetection_init tv_init transforms_arg return_masks img_ids class_ids =
     bind_err (tv_init img_ids class_ids) (\<lambda>self.
     bind_err (case class_ids of
                 None \<Rightarrow> Inl TypeError
               | Some cs \<Rightarrow> Inr (cats_loop (coco_cats self) cs Map.empty)) (\<lambda>cats.
     Inr \<lparr>ids = ids self, coco_cats = cats,
          transforms = transforms_arg, prepare = return_masks\<rparr>))"

text \<open>\<^verbatim>\<open>get_paths\<close> returns a dictionary with the two keys \<^verbatim>\<open>train\<close> and \<^verbatim>\<open>val\<close>.\<close>

definition get_paths :: "(string \<times> string \<times> string) list" where
  "get_paths =
     [(''train'', (''/mnt/thanhpd/MTSD/mtsd_fully_annotated_train_images/images'',
                  ''/mnt/thanhpd/code/mtsd_cl/CL_rtdetr/train_output_file_coco.json'')),
      (''val'', (''/mnt/thanhpd/MTSD/mtsd_v2_fully_annotated_images.val.zip/images'',
                ''/mnt/thanhpd/code/mtsd_cl/CL_rtdetr/val_output_file_coco.json''))]"

record build_args =
  args_Sampling_strategy :: string
  args_masks :: bool

text \<open>
  \<^verbatim>\<open>build\<close>: \<^verbatim>\<open>PATHS[image_set]\<close> comes first, then the arguments of the constructor
  call, among them \<^verbatim>\<open>make_coco_transforms\<close>, then the constructor. The base class is
  opened on the two paths by the parameter \<open>tv_open\<close>.
\<close>

definition build ::
  "(string \<Rightarrow> string \<Rightarrow> int list option \<Rightarrow> int list option \<Rightarrow> error + 'meta tv_dataset) \<Rightarrow>
     string \<Rightarrow> build_args \<Rightarrow> int list option \<Rightarrow> int list option \<Rightarrow> error + 'meta coco_detection" where
  "build tv_open image_set args img_ids class_ids =
     bind_err (case map_of get_paths image_set of
                 None \<Rightarrow> Inl (KeyError image_set)
               | Some p \<Rightarrow> Inr p) (\<lambda>(img_folder, ann_file).
     bind_err (make_coco_transforms image_set (args_Sampling_strategy args = ''icarl'')) (\<lambda>tr.
     CocoDetection_init (tv_open img_folder ann_file) (Some tr) (args_masks args) img_ids class_ids))"

section \<open>The box as the specification words it\<close>

text \<open>
  The specification converts \<open>(x, y, w, h)\<close> to \<open>(x, y, x + w, y + h)\<close> and clamps the
  x-coordinates to \<open>[0, image_width]\<close> and the y-coordinates to \<open>[0, image_height]\<close>.
  This definition follows those words, in exact arithmetic and with bounds of its own;
  \<open>convert_row\<close> above follows the source.
\<close>

fun xyxy_clamped :: "nat \<Rightarrow> nat \<Rightarrow> real list \<Rightarrow> real list" where
  "xyxy_clamped W H [x, y, bw, bh] =
     [max 0 (min (real W) x), max 0 (min (real H) y),
      max 0 (min (real W) (x + bw)), max 0 (min (real H) (y + bh))]"
| "xyxy_clamped W H b = b"

text \<open>
  The same box computed in \<^verbatim>\<open>float32\<close>: the four components and the two bounds are
  converted, and each sum is rounded.
\<close>

fun xyxy_clamped_float32 :: "nat \<Rightarrow> nat \<Rightarrow> real list \<Rightarrow> real list" where
  "xyxy_clamped_float32 W H [x, y, bw, bh] =
     [max 0 (min (float32 (real W)) (float32 x)),
      max 0 (min (float32 (real H)) (float32 y)),
      max 0 (min (float32 (real W)) (float32 (float32 x + float32 bw))),
      max 0 (min (float32 (real H)) (float32 (float32 y + float32 bh)))]"
| "xyxy_clamped_float32 W H b = b"

text \<open>A coordinate pair within the bounds of the image.\<close>

definition in_bounds :: "real \<Rightarrow> real \<Rightarrow> real list \<Rightarrow> bool" where
  "in_bounds bw bh r =
     (length r = 4 \<and> 0 \<le> r ! 0 \<and> r ! 0 \<le> bw \<and> 0 \<le> r ! 1 \<and> r ! 1 \<le> bh \<and>
      0 \<le> r ! 2 \<and> r ! 2 \<le> bw \<and> 0 \<le> r ! 3 \<and> r ! 3 \<le> bh)"

section \<open>Concrete inputs\<close>

definition img_640_480 :: image where
  "img_640_480 = \<lparr>img_width = 640, img_height = 480\<rparr>"

text \<open>A rasterizer that returns an empty bitmap of the requested size.\<close>

definition rast_blank :: "unit \<Rightarrow> nat \<Rightarrow> nat \<Rightarrow> ndarray" where
  "rast_blank polygons height width = Arr2 (replicate height (replicate width 0))"

text \<open>\<^verbatim>\<open>{bbox:[100,100,50,0], category_id:3, area:0, iscrowd:0}\<close>\<close>

definition ann_flat :: "unit raw_annotation" where
  "ann_flat = \<lparr>bbox = Some [100, 100, 50, 0], category_id = Some 3, area = Some 0,
     iscrowd = Some 0, segmentation = None, keypoints = None\<rparr>"

text \<open>\<^verbatim>\<open>{bbox:[100,100,50,60], category_id:3, area:3000, iscrowd:0}\<close>\<close>

definition ann_box :: "unit raw_annotation" where
  "ann_box = \<lparr>bbox = Some [100, 100, 50, 60], category_id = Some 3, area = Some 3000,
     iscrowd = Some 0, segmentation = None, keypoints = None\<rparr>"

text \<open>
  An object whose x is \<open>100 + 2 ^ - 20\<close>, a double that \<^verbatim>\<open>float32\<close> does not have, and an
  object that runs over the left, right and lower edge of a 640x480 image.
\<close>

definition ann_fine :: "unit raw_annotation" where
  "ann_fine = ann_box\<lparr>bbox := Some [104857601 / 1048576, 100, 50, 60]\<rparr>"

definition ann_over :: "unit raw_annotation" where
  "ann_over = ann_box\<lparr>bbox := Some [- 10, 470, 700, 50]\<rparr>"

text \<open>The same object with one keypoint, and with a keypoint and a segmentation.\<close>

definition ann_kp :: "unit raw_annotation" where
  "ann_kp = ann_box\<lparr>keypoints := Some [110, 120, 2]\<rparr>"

definition ann_seg :: "unit raw_annotation" where
  "ann_seg = ann_kp\<lparr>segmentation := Some ()\<rparr>"

text \<open>A small image, and an object with keypoints and a segmentation that fits into it.\<close>

definition img_2_1 :: image where
  "img_2_1 = \<lparr>img_width = 2, img_height = 1\<rparr>"

definition ann_tiny :: "unit raw_annotation" where
  "ann_tiny = \<lparr>bbox = Some [0, 0, 2, 1], category_id = Some 5, area = Some 2,
     iscrowd = None, segmentation = Some (), keypoints = Some [1, 0, 2]\<rparr>"

text \<open>A crowd region and a plain object, each with a bbox of three components.\<close>

definition ann_crowd_short :: "unit raw_annotation" where
  "ann_crowd_short = \<lparr>bbox = Some [1, 2, 3], category_id = Some 3, area = Some 6,
     iscrowd = Some 1, segmentation = None, keypoints = None\<rparr>"

definition ann_short :: "unit raw_annotation" where
  "ann_short = ann_crowd_short\<lparr>iscrowd := Some 0\<rparr>"

text \<open>An object whose bbox has two components: two of them fill one row of four.\<close>

definition ann_pair :: "unit raw_annotation" where
  "ann_pair = ann_box\<lparr>bbox := Some [1, 2]\<rparr>"

text \<open>A base-class constructor that succeeds with a catalog of the two categories 5 and 7.\<close>

definition tv_two_cats :: "int list option \<Rightarrow> int list option \<Rightarrow> error + string tv_dataset" where
  "tv_two_cats img_ids class_ids =
     Inr \<lparr>ids = [1, 2], coco_cats = [5 \<mapsto> ''stop'', 7 \<mapsto> ''yield'']\<rparr>"

section \<open>Errors, lists and tensors: basic facts\<close>

lemma bind_err_Inr_iff: "bind_err m f = Inr y \<longleftrightarrow> (\<exists>x. m = Inr x \<and> f x = Inr y)"
  by (cases m) (simp_all add: bind_err_def)

lemma bind_err_Inr [simp]: "bind_err (Inr x) f = f x"
  by (simp add: bind_err_def)

lemma bind_err_Inl [simp]: "bind_err (Inl e) f = Inl e"
  by (simp add: bind_err_def)

lemma map_err_getitem:
  "map_err (\<lambda>obj. getitem key (fld obj)) xs = Inr ys \<Longrightarrow> map fld xs = map Some ys"
  by (induction xs arbitrary: ys) (auto simp: getitem_def split: sum.splits option.splits)

lemma getitem_map_err:
  "map fld xs = map Some ys \<Longrightarrow> map_err (\<lambda>obj. getitem key (fld obj)) xs = Inr ys"
  by (induction xs arbitrary: ys) (auto simp: getitem_def)

lemma length_select:
  "length keep = length xs \<Longrightarrow> length (select keep xs) = length (filter id keep)"
  by (induction keep xs rule: list_induct2) (auto simp: select_def)

lemma select_map_filter: "select (map p xs) xs = filter p xs"
  by (induction xs) (auto simp: select_def)

lemma set_select: "set (select keep xs) \<subseteq> set xs"
  by (auto simp: select_def dest: set_zip_rightD)

lemma chunks_Nil [simp]: "chunks n [] = []"
  by (simp add: chunks.simps)

lemma chunks_append: "n > 0 \<Longrightarrow> length r = n \<Longrightarrow> chunks n (r @ xs) = r # chunks n xs"
  by (subst chunks.simps) auto

lemma chunks_concat:
  "n > 0 \<Longrightarrow> list_all (\<lambda>r. length r = n) rs \<Longrightarrow> chunks n (concat rs) = rs"
  by (induction rs) (auto simp: chunks_append)

lemma length_chunks:
  "n > 0 \<Longrightarrow> length xs mod n = 0 \<Longrightarrow> length (chunks n xs) = length xs div n"
proof (induction n xs rule: chunks.induct)
  case (1 n xs)
  show ?case
  proof (cases "xs = []")
    case True
    then show ?thesis by simp
  next
    case False
    with 1 have n: "n \<le> length xs"
      by (metis mod_less length_0_conv not_le)
    from 1 False n have d: "length (drop n xs) mod n = 0"
      by (simp add: mod_eq_0_iff_dvd)
    from 1 False d have "length (chunks n (drop n xs)) = length (drop n xs) div n"
      by simp
    with False 1(2) n show ?thesis
      by (subst chunks.simps) (simp add: le_div_geq)
  qed
qed

lemma chunks_all_length:
  "n > 0 \<Longrightarrow> length xs mod n = 0 \<Longrightarrow> list_all (\<lambda>c. length c = n) (chunks n xs)"
proof (induction n xs rule: chunks.induct)
  case (1 n xs)
  show ?case
  proof (cases "xs = []")
    case True
    then show ?thesis by simp
  next
    case False
    with 1 have n: "n \<le> length xs"
      by (metis mod_less length_0_conv not_le)
    from 1 False n have d: "length (drop n xs) mod n = 0"
      by (simp add: mod_eq_0_iff_dvd)
    from 1 False d have "list_all (\<lambda>c. length c = n) (chunks n (drop n xs))"
      by simp
    with False 1(2) n show ?thesis
      by (subst chunks.simps) simp
  qed
qed

lemma length_concat_uniform:
  "list_all (\<lambda>r. length r = k) rs \<Longrightarrow> length (concat rs) = length rs * k"
  by (induction rs) auto

lemma length_concat_map_map: "length (concat (map (map f) xss)) = length (concat xss)"
  by (induction xss) auto

lemma as_tensor_Inr:
  "as_tensor f xss = Inr rows \<Longrightarrow>
     rows = map (map f) xss \<and> (\<exists>k. list_all (\<lambda>ys. length ys = k) xss)"
  by (cases xss) (auto simp: as_tensor_def split: if_splits)

lemma index_mask_opt_Inr:
  "index_mask_opt m keep = Inr m' \<Longrightarrow>
     (case m of None \<Rightarrow> m' = None
      | Some x \<Rightarrow> length keep = length (items x) \<and>
                  m' = Some (x\<lparr>items := select keep (items x)\<rparr>))"
  by (auto simp: index_mask_opt_def index_mask_def bind_err_Inr_iff split: option.splits if_splits)

section \<open>Rounding to float32\<close>

lemma pow2_powr: "pow2 e = 2 powr (of_int e)"
proof (cases "0 \<le> e")
  case True
  then have "real_of_int e = real (nat e)"
    by simp
  then have "(2::real) powr (of_int e) = 2 ^ nat e"
    by (simp only: powr_realpow zero_less_numeral)
  with True show ?thesis
    by (simp add: pow2_def)
next
  case False
  then have "real_of_int e = - real (nat (- e))"
    by simp
  then have "(2::real) powr (of_int e) = inverse (2 ^ nat (- e))"
    by (simp only: powr_minus powr_realpow zero_less_numeral)
  with False show ?thesis
    by (simp add: pow2_def inverse_eq_divide)
qed

lemma pow2_pos [simp]: "0 < pow2 e"
  by (simp add: pow2_def)

lemma round_half_even_of_int [simp]: "round_half_even (of_int k) = k"
  by (simp add: round_half_even_def)

lemma round_half_even_nonneg: "0 \<le> r \<Longrightarrow> 0 \<le> round_half_even r"
  by (auto simp: round_half_even_def Let_def)

lemma floor_log2_eq:
  assumes "pow2 L \<le> \<bar>x\<bar>" and "\<bar>x\<bar> < pow2 (L + 1)"
  shows "\<lfloor>log 2 \<bar>x\<bar>\<rfloor> = L"
proof -
  from assms(1) pow2_pos [of L] have pos: "0 < \<bar>x\<bar>"
    by linarith
  from assms have "2 powr (of_int L) \<le> \<bar>x\<bar> \<and> \<bar>x\<bar> < 2 powr (of_int (L + 1))"
    by (simp only: pow2_powr)
  with floor_log_eq_powr_iff [of "\<bar>x\<bar>" 2 L] pos show ?thesis
    by simp
qed

text \<open>The value of \<open>float32\<close> at a number whose binary exponent \<open>L\<close> is known.\<close>

lemma float32_eval:
  assumes "pow2 L \<le> \<bar>x\<bar>" and "\<bar>x\<bar> < pow2 (L + 1)" and "- 126 \<le> L"
  shows "float32 x = of_int (round_half_even (x / pow2 (L - 23))) * pow2 (L - 23)"
proof -
  from assms(1) pow2_pos [of L] have "0 < \<bar>x\<bar>"
    by linarith
  then have nz: "x \<noteq> 0"
    by simp
  from floor_log2_eq [OF assms(1,2)] assms(3) have "max \<lfloor>log 2 \<bar>x\<bar>\<rfloor> (- 126) = L"
    by simp
  with nz show ?thesis
    by (simp add: float32_def Let_def)
qed

lemma float32_0 [simp]: "float32 0 = 0"
  by (simp add: float32_def)

lemma float32_nonneg:
  assumes "0 \<le> x"
  shows "0 \<le> float32 x"
proof (cases "x = 0")
  case True
  then show ?thesis
    by simp
next
  case False
  define e where "e = max \<lfloor>log 2 \<bar>x\<bar>\<rfloor> (- 126) - 23"
  have "0 \<le> x / pow2 e"
    by (intro divide_nonneg_pos assms pow2_pos)
  then have "0 \<le> round_half_even (x / pow2 e)"
    by (rule round_half_even_nonneg)
  then have "0 \<le> real_of_int (round_half_even (x / pow2 e))"
    by (simp only: of_int_0_le_iff)
  moreover have "0 \<le> pow2 e"
    using pow2_pos [of e] by linarith
  ultimately have "0 \<le> real_of_int (round_half_even (x / pow2 e)) * pow2 e"
    by (rule mult_nonneg_nonneg)
  with False show ?thesis
    by (simp only: float32_def Let_def e_def if_False)
qed

text \<open>Integers of magnitude below \<open>2 ^ 24\<close> are \<^verbatim>\<open>float32\<close> numbers.\<close>

lemma float32_of_int:
  assumes "\<bar>n\<bar> < 16777216"
  shows "float32 (of_int n) = of_int n"
proof (cases "n = 0")
  case True
  then show ?thesis
    by simp
next
  case False
  define L where "L = \<lfloor>log 2 \<bar>real_of_int n\<bar>\<rfloor>"
  from False have "1 \<le> \<bar>n\<bar>"
    by linarith
  then have "1 \<le> real_of_int \<bar>n\<bar>"
    by (simp only: of_int_1_le_iff)
  then have one: "1 \<le> \<bar>real_of_int n\<bar>"
    by simp
  then have "0 \<le> log 2 \<bar>real_of_int n\<bar>"
    by simp
  then have L0: "0 \<le> L"
    unfolding L_def by simp
  from assms have "real_of_int \<bar>n\<bar> < 16777216"
    by (simp only: of_int_less_numeral_iff)
  then have lt: "\<bar>real_of_int n\<bar> < 2 powr 24"
    by simp
  from one have "0 < \<bar>real_of_int n\<bar>"
    by linarith
  with lt have "log 2 \<bar>real_of_int n\<bar> < 24"
    by (subst log_less_iff) simp_all
  then have L23: "L \<le> 23"
    unfolding L_def by linarith
  define m where "m = nat (23 - L)"
  from L0 L23 have e: "max L (- 126) - 23 = - int m"
    by (simp add: m_def)
  have p: "pow2 (- int m) = 1 / 2 ^ m"
    by (cases "m = 0") (simp_all add: pow2_def)
  have "real_of_int n / pow2 (- int m) = real_of_int (n * 2 ^ m)"
    by (simp add: p)
  then have r: "round_half_even (real_of_int n / pow2 (- int m)) = n * 2 ^ m"
    by (simp only: round_half_even_of_int)
  from False have "float32 (of_int n) =
      of_int (round_half_even (of_int n / pow2 (max L (- 126) - 23))) * pow2 (max L (- 126) - 23)"
    by (simp add: float32_def Let_def L_def)
  also have "\<dots> = of_int (n * 2 ^ m) * (1 / 2 ^ m)"
    by (simp only: e, simp only: r, simp only: p)
  also have "\<dots> = of_int n"
    by simp
  finally show ?thesis .
qed

lemma float32_numeral [simp]:
  "numeral k < (16777216 :: int) \<Longrightarrow> float32 (numeral k) = numeral k"
  using float32_of_int [of "numeral k"] by simp

lemma float32_neg_numeral [simp]:
  "numeral k < (16777216 :: int) \<Longrightarrow> float32 (- numeral k) = - numeral k"
  using float32_of_int [of "- numeral k"] by simp

lemma float32_1 [simp]: "float32 1 = 1"
  using float32_of_int [of 1] by simp

lemma float32_of_nat: "n < 16777216 \<Longrightarrow> float32 (real n) = real n"
  using float32_of_int [of "int n"] by simp

text \<open>\<open>100 + 2 ^ - 20\<close> lies between the neighbours \<open>100\<close> and \<open>100 + 2 ^ - 17\<close>.\<close>

lemma float32_fine: "float32 (104857601 / 1048576) = 100"
  by (subst float32_eval [of 6]) (simp_all add: pow2_def round_half_even_def)

section \<open>The boxes tensor\<close>

lemma clamp_max_min: "0 \<le> hi \<Longrightarrow> clamp 0 hi v = max 0 (min hi v)"
  by (simp add: clamp_def min_def max_def)

lemma convert_row_float32:
  assumes "length b = 4"
  shows "convert_row W H (map float32 b) = xyxy_clamped_float32 W H b"
proof -
  from assms obtain x y bw bh where "b = [x, y, bw, bh]"
    by (auto simp: length_Suc_conv numeral_eq_Suc)
  then show ?thesis
    by (simp add: convert_row_def clamp_odd_def clamp_even_def add_corner_def add.commute
        clamp_max_min float32_nonneg)
qed

lemma make_boxes_Inr:
  assumes "make_boxes w h anno = Inr boxes"
  shows "\<exists>bs k. map bbox anno = map Some bs \<and> list_all (\<lambda>b. length b = k) bs \<and>
           length (concat bs) mod 4 = 0 \<and>
           boxes = \<lparr>trailing = [4],
             items = map (convert_row w h) (chunks 4 (concat (map (map float32) bs)))\<rparr>"
proof -
  from assms obtain bs rows t where
    bs: "map_err (\<lambda>obj. getitem ''bbox'' (bbox obj)) anno = Inr bs" and
    rows: "as_tensor float32 bs = Inr rows" and
    t: "reshape_rows 4 (concat rows) = Inr t" and
    boxes: "boxes = t\<lparr>items := map (convert_row w h) (items t)\<rparr>"
    by (auto simp: make_boxes_def bind_err_Inr_iff)
  from rows obtain k where k: "rows = map (map float32) bs" "list_all (\<lambda>b. length b = k) bs"
    by (auto dest: as_tensor_Inr)
  from t have "length (concat rows) mod 4 = 0"
      "t = \<lparr>trailing = [4], items = chunks 4 (concat rows)\<rparr>"
    by (auto simp: reshape_rows_def split: if_splits)
  with bs k boxes show ?thesis
    by (auto simp: length_concat_map_map dest: map_err_getitem)
qed

text \<open>
  When the boxes tensor has as many rows as there are annotations, every bbox has four
  components and row \<open>i\<close> is the converted bbox of annotation \<open>i\<close>.
\<close>

lemma make_boxes_aligned:
  assumes "make_boxes w h anno = Inr boxes" and "length (items boxes) = length anno"
  shows "\<exists>bs. map bbox anno = map Some bs \<and> list_all (\<lambda>b. length b = 4) bs \<and>
           boxes = \<lparr>trailing = [4], items = map (\<lambda>b. convert_row w h (map float32 b)) bs\<rparr>"
proof -
  from make_boxes_Inr [OF assms(1)] obtain bs k where
    bs: "map bbox anno = map Some bs" and k: "list_all (\<lambda>b. length b = k) bs" and
    m: "length (concat bs) mod 4 = 0" and
    boxes: "boxes = \<lparr>trailing = [4],
      items = map (convert_row w h) (chunks 4 (concat (map (map float32) bs)))\<rparr>"
    by auto
  from bs have n: "length bs = length anno"
    by (metis length_map)
  have all4: "list_all (\<lambda>b. length b = 4) bs"
  proof (cases "bs = []")
    case True
    then show ?thesis by simp
  next
    case False
    from boxes assms(2) m n have "length (concat bs) div 4 = length bs"
      by (simp add: length_chunks length_concat_map_map)
    with m have "length (concat bs) = 4 * length bs"
      by presburger
    with k have "length bs * k = 4 * length bs"
      by (simp add: length_concat_uniform)
    with False have "k = 4"
      by simp
    with k show ?thesis
      by simp
  qed
  then have "list_all (\<lambda>r. length r = 4) (map (map float32) bs)"
    by (simp add: list_all_iff)
  then have "chunks 4 (concat (map (map float32) bs)) = map (map float32) bs"
    by (simp add: chunks_concat)
  with boxes bs all4 show ?thesis
    by (auto simp: comp_def)
qed

lemma make_boxes_wf:
  assumes "map bbox anno = map Some bs" and "list_all (\<lambda>b. length b = 4) bs"
  shows "make_boxes w h anno =
    Inr \<lparr>trailing = [4], items = map (\<lambda>b. convert_row w h (map float32 b)) bs\<rparr>"
proof -
  have 1: "map_err (\<lambda>obj. getitem ''bbox'' (bbox obj)) anno = Inr bs"
    using assms(1) by (rule getitem_map_err)
  have 2: "as_tensor float32 bs = Inr (map (map float32) bs)"
    using assms(2) by (cases bs) (auto simp: as_tensor_def)
  from assms(2) have all4: "list_all (\<lambda>r. length r = 4) (map (map float32) bs)"
    by (simp add: list_all_iff)
  then have 3: "reshape_rows 4 (concat (map (map float32) bs)) =
      Inr \<lparr>trailing = [4], items = map (map float32) bs\<rparr>"
    by (simp add: reshape_rows_def length_concat_uniform chunks_concat)
  show ?thesis
    by (simp add: make_boxes_def 1 2 3 comp_def)
qed

section \<open>What a returned target is made of\<close>

lemma call_Inr:
  assumes "ConvertCocoPolysToMask_call rast rm img iid annotations = Inr (img', t)"
  shows "\<exists>boxes classes masks kps areas.
     make_boxes (img_width img) (img_height img) (filter not_crowd annotations) = Inr boxes \<and>
     length (items boxes) = length (filter not_crowd annotations) \<and>
     map category_id (filter not_crowd annotations) = map Some classes \<and>
     (if rm then \<exists>segs m. map segmentation (filter not_crowd annotations) = map Some segs \<and>
                    convert_coco_poly_to_mask rast segs (img_height img) (img_width img) = Inr m \<and>
                    masks = Some m
      else masks = None) \<and>
     make_keypoints (filter not_crowd annotations) = Inr kps \<and>
     map area (filter not_crowd annotations) = map Some areas \<and>
     index_mask_opt masks (map keep_row (items boxes)) = Inr (t_masks t) \<and>
     index_mask_opt kps (map keep_row (items boxes)) = Inr (t_keypoints t) \<and>
     img' = img \<and>
     t_boxes t = boxes\<lparr>items := filter keep_row (items boxes)\<rparr> \<and>
     t_labels t = tensor1 (select (map keep_row (items boxes)) classes) \<and>
     t_area t = tensor1 (select (map keep_row (items boxes)) areas) \<and>
     t_iscrowd t = tensor1 (select (map keep_row (items boxes))
        (map (\<lambda>obj. case iscrowd obj of Some c \<Rightarrow> c | None \<Rightarrow> 0) (filter not_crowd annotations)))"
proof -
  let ?anno = "filter not_crowd annotations"
  from assms obtain boxes classes masks kps boxes' classes' areas area' iscrowd' where
    b: "make_boxes (img_width img) (img_height img) ?anno = Inr boxes" and
    c: "map_err (\<lambda>obj. getitem ''category_id'' (category_id obj)) ?anno = Inr classes" and
    m: "(if rm then bind_err (map_err (\<lambda>obj. getitem ''segmentation'' (segmentation obj)) ?anno)
                       (\<lambda>segmentations.
                     bind_err (convert_coco_poly_to_mask rast segmentations (img_height img) (img_width img))
                       (\<lambda>masks. Inr (Some masks)))
                else Inr None) = Inr masks" and
    k: "make_keypoints ?anno = Inr kps" and
    b': "index_mask boxes (map keep_row (items boxes)) = Inr boxes'" and
    c': "index_mask (tensor1 classes) (map keep_row (items boxes)) = Inr classes'" and
    m': "index_mask_opt masks (map keep_row (items boxes)) = Inr (t_masks t)" and
    k': "index_mask_opt kps (map keep_row (items boxes)) = Inr (t_keypoints t)" and
    a: "map_err (\<lambda>obj. getitem ''area'' (area obj)) ?anno = Inr areas" and
    a': "index_mask (tensor1 areas) (map keep_row (items boxes)) = Inr area'" and
    i': "index_mask (tensor1 (map (\<lambda>obj. case iscrowd obj of Some c \<Rightarrow> c | None \<Rightarrow> 0) ?anno))
           (map keep_row (items boxes)) = Inr iscrowd'" and
    t: "t_boxes t = boxes'" "t_labels t = classes'" "t_area t = area'" "t_iscrowd t = iscrowd'" and
    img: "img' = img"
    by (auto simp: ConvertCocoPolysToMask_call_def Let_def bind_err_Inr_iff)
  from c have c1: "map category_id ?anno = map Some classes"
    by (rule map_err_getitem)
  from a have a1: "map area ?anno = map Some areas"
    by (rule map_err_getitem)
  from c1 have lc: "length classes = length ?anno"
    by (metis length_map)
  from c' lc have len: "length (items boxes) = length ?anno"
    by (auto simp: index_mask_def tensor1_def split: if_splits)
  from b' have tb: "boxes' = boxes\<lparr>items := filter keep_row (items boxes)\<rparr>"
    by (auto simp: index_mask_def select_map_filter split: if_splits)
  from c' have tc: "classes' = tensor1 (select (map keep_row (items boxes)) classes)"
    by (auto simp: index_mask_def tensor1_def split: if_splits)
  from a' have ta: "area' = tensor1 (select (map keep_row (items boxes)) areas)"
    by (auto simp: index_mask_def tensor1_def split: if_splits)
  from i' have ti: "iscrowd' = tensor1 (select (map keep_row (items boxes))
        (map (\<lambda>obj. case iscrowd obj of Some c \<Rightarrow> c | None \<Rightarrow> 0) ?anno))"
    by (auto simp: index_mask_def tensor1_def split: if_splits)
  from m have m1: "if rm then \<exists>segs m. map segmentation ?anno = map Some segs \<and>
                    convert_coco_poly_to_mask rast segs (img_height img) (img_width img) = Inr m \<and>
                    masks = Some m
      else masks = None"
    by (auto simp: bind_err_Inr_iff dest: map_err_getitem split: if_splits)
  from b len c1 m1 k a1 m' k' img t tb tc ta ti show ?thesis
    by blast
qed

section \<open>The normalizer on concrete inputs\<close>

text \<open>The definitions that evaluate the normalizer on a concrete input.\<close>

lemmas call_eval =
  ConvertCocoPolysToMask_call_def make_boxes_def getitem_def as_tensor_def
  reshape_rows_def chunks.simps convert_row_def clamp_odd_def clamp_even_def add_corner_def
  clamp_def keep_row_def make_keypoints_def index_mask_def index_mask_opt_def select_def
  tensor1_def not_crowd_def convert_coco_poly_to_mask_def Let_def img_640_480_def img_2_1_def
  rast_blank_def expand_last_def any_dim2_def shape2_def

text \<open>The two examples of the specification, alone and together.\<close>

lemma call_ann_flat:
  "ConvertCocoPolysToMask_call rast False img_640_480 iid [ann_flat] =
     Inr (img_640_480,
       \<lparr>t_boxes = \<lparr>trailing = [4], items = []\<rparr>, t_labels = \<lparr>trailing = [], items = []\<rparr>,
        t_masks = None, t_image_id = \<lparr>trailing = [], items = [iid]\<rparr>, t_keypoints = None,
        t_area = \<lparr>trailing = [], items = []\<rparr>, t_iscrowd = \<lparr>trailing = [], items = []\<rparr>,
        t_orig_size = \<lparr>trailing = [], items = [480, 640]\<rparr>,
        t_size = \<lparr>trailing = [], items = [480, 640]\<rparr>\<rparr>)"
  by (simp add: call_eval ann_flat_def)

lemma call_ann_box:
  "ConvertCocoPolysToMask_call rast False img_640_480 iid [ann_box] =
     Inr (img_640_480,
       \<lparr>t_boxes = \<lparr>trailing = [4], items = [[100, 100, 150, 160]]\<rparr>,
        t_labels = \<lparr>trailing = [], items = [3]\<rparr>,
        t_masks = None, t_image_id = \<lparr>trailing = [], items = [iid]\<rparr>, t_keypoints = None,
        t_area = \<lparr>trailing = [], items = [3000]\<rparr>, t_iscrowd = \<lparr>trailing = [], items = [0]\<rparr>,
        t_orig_size = \<lparr>trailing = [], items = [480, 640]\<rparr>,
        t_size = \<lparr>trailing = [], items = [480, 640]\<rparr>\<rparr>)"
  by (simp add: call_eval ann_box_def)

lemma call_flat_box:
  "ConvertCocoPolysToMask_call rast False img_640_480 iid [ann_flat, ann_box] =
     Inr (img_640_480,
       \<lparr>t_boxes = \<lparr>trailing = [4], items = [[100, 100, 150, 160]]\<rparr>,
        t_labels = \<lparr>trailing = [], items = [3]\<rparr>,
        t_masks = None, t_image_id = \<lparr>trailing = [], items = [iid]\<rparr>, t_keypoints = None,
        t_area = \<lparr>trailing = [], items = [3000]\<rparr>, t_iscrowd = \<lparr>trailing = [], items = [0]\<rparr>,
        t_orig_size = \<lparr>trailing = [], items = [480, 640]\<rparr>,
        t_size = \<lparr>trailing = [], items = [480, 640]\<rparr>\<rparr>)"
  by (simp add: call_eval ann_box_def ann_flat_def)

text \<open>
  The x of \<open>ann_fine\<close> is rounded to 100; the box of \<open>ann_over\<close> is cut at three edges.
\<close>

lemma call_fine:
  "ConvertCocoPolysToMask_call rast False img_640_480 iid [ann_fine] =
     Inr (img_640_480,
       \<lparr>t_boxes = \<lparr>trailing = [4], items = [[100, 100, 150, 160]]\<rparr>,
        t_labels = \<lparr>trailing = [], items = [3]\<rparr>,
        t_masks = None, t_image_id = \<lparr>trailing = [], items = [iid]\<rparr>, t_keypoints = None,
        t_area = \<lparr>trailing = [], items = [3000]\<rparr>, t_iscrowd = \<lparr>trailing = [], items = [0]\<rparr>,
        t_orig_size = \<lparr>trailing = [], items = [480, 640]\<rparr>,
        t_size = \<lparr>trailing = [], items = [480, 640]\<rparr>\<rparr>)"
  by (simp add: call_eval ann_box_def ann_fine_def float32_fine)

lemma call_over:
  "ConvertCocoPolysToMask_call rast False img_640_480 iid [ann_over] =
     Inr (img_640_480,
       \<lparr>t_boxes = \<lparr>trailing = [4], items = [[0, 470, 640, 480]]\<rparr>,
        t_labels = \<lparr>trailing = [], items = [3]\<rparr>,
        t_masks = None, t_image_id = \<lparr>trailing = [], items = [iid]\<rparr>, t_keypoints = None,
        t_area = \<lparr>trailing = [], items = [3000]\<rparr>, t_iscrowd = \<lparr>trailing = [], items = [0]\<rparr>,
        t_orig_size = \<lparr>trailing = [], items = [480, 640]\<rparr>,
        t_size = \<lparr>trailing = [], items = [480, 640]\<rparr>\<rparr>)"
  by (simp add: call_eval ann_box_def ann_over_def)

text \<open>
  Keypoints on the second object only are not seen; keypoints on the first object only
  make the comprehension over all objects raise \<^verbatim>\<open>KeyError\<close>.
\<close>

lemma call_box_kp:
  "ConvertCocoPolysToMask_call rast False img_640_480 iid [ann_box, ann_kp] =
     Inr (img_640_480,
       \<lparr>t_boxes = \<lparr>trailing = [4], items = [[100, 100, 150, 160], [100, 100, 150, 160]]\<rparr>,
        t_labels = \<lparr>trailing = [], items = [3, 3]\<rparr>,
        t_masks = None, t_image_id = \<lparr>trailing = [], items = [iid]\<rparr>, t_keypoints = None,
        t_area = \<lparr>trailing = [], items = [3000, 3000]\<rparr>, t_iscrowd = \<lparr>trailing = [], items = [0, 0]\<rparr>,
        t_orig_size = \<lparr>trailing = [], items = [480, 640]\<rparr>,
        t_size = \<lparr>trailing = [], items = [480, 640]\<rparr>\<rparr>)"
  by (simp add: call_eval ann_box_def ann_kp_def)

lemma call_kp_box:
  "ConvertCocoPolysToMask_call rast False img_640_480 iid [ann_kp, ann_box] = Inl (KeyError ''keypoints'')"
  by (simp add: call_eval ann_box_def ann_kp_def)

text \<open>
  Mask mode on the small image: the box \<open>[100, 100, 50, 60]\<close> is clamped to a point and
  dropped, the box \<open>[0, 0, 2, 1]\<close> survives.
\<close>

lemma call_seg:
  "ConvertCocoPolysToMask_call rast_blank True img_2_1 iid [ann_seg] =
     Inr (img_2_1,
       \<lparr>t_boxes = \<lparr>trailing = [4], items = []\<rparr>,
        t_labels = \<lparr>trailing = [], items = []\<rparr>,
        t_masks = Some \<lparr>trailing = [1, 2], items = []\<rparr>,
        t_image_id = \<lparr>trailing = [], items = [iid]\<rparr>,
        t_keypoints = Some \<lparr>trailing = [1, 3], items = []\<rparr>,
        t_area = \<lparr>trailing = [], items = []\<rparr>, t_iscrowd = \<lparr>trailing = [], items = []\<rparr>,
        t_orig_size = \<lparr>trailing = [], items = [1, 2]\<rparr>,
        t_size = \<lparr>trailing = [], items = [1, 2]\<rparr>\<rparr>)"
  by (simp add: call_eval ann_box_def ann_kp_def ann_seg_def)

lemma call_seg_tiny:
  "ConvertCocoPolysToMask_call rast_blank True img_2_1 iid [ann_seg, ann_tiny] =
     Inr (img_2_1,
       \<lparr>t_boxes = \<lparr>trailing = [4], items = [[0, 0, 2, 1]]\<rparr>,
        t_labels = \<lparr>trailing = [], items = [5]\<rparr>,
        t_masks = Some \<lparr>trailing = [1, 2], items = [[[False, False]]]\<rparr>,
        t_image_id = \<lparr>trailing = [], items = [iid]\<rparr>,
        t_keypoints = Some \<lparr>trailing = [1, 3], items = [[[1, 0, 2]]]\<rparr>,
        t_area = \<lparr>trailing = [], items = [2]\<rparr>, t_iscrowd = \<lparr>trailing = [], items = [0]\<rparr>,
        t_orig_size = \<lparr>trailing = [], items = [1, 2]\<rparr>,
        t_size = \<lparr>trailing = [], items = [1, 2]\<rparr>\<rparr>)"
  by (simp add: call_eval ann_box_def ann_kp_def ann_seg_def ann_tiny_def)
    (simp add: numeral_2_eq_2)

text \<open>
  A bbox of three components: unread on a crowd region; on a plain object the reshape
  raises \<^verbatim>\<open>RuntimeError\<close>.
\<close>

lemma call_crowd_short:
  "ConvertCocoPolysToMask_call rast False img_640_480 iid [ann_crowd_short] =
     Inr (img_640_480,
       \<lparr>t_boxes = \<lparr>trailing = [4], items = []\<rparr>, t_labels = \<lparr>trailing = [], items = []\<rparr>,
        t_masks = None, t_image_id = \<lparr>trailing = [], items = [iid]\<rparr>, t_keypoints = None,
        t_area = \<lparr>trailing = [], items = []\<rparr>, t_iscrowd = \<lparr>trailing = [], items = []\<rparr>,
        t_orig_size = \<lparr>trailing = [], items = [480, 640]\<rparr>,
        t_size = \<lparr>trailing = [], items = [480, 640]\<rparr>\<rparr>)"
  by (simp add: call_eval ann_crowd_short_def)

lemma call_short:
  "ConvertCocoPolysToMask_call rast False img_640_480 iid [ann_short] = Inl RuntimeError"
  by (simp add: call_eval ann_crowd_short_def ann_short_def)

text \<open>No object after the crowd filter: every statement runs on empty lists.\<close>

lemma call_no_objects:
  assumes "filter not_crowd annotations = []"
  shows "ConvertCocoPolysToMask_call rast rm img iid annotations =
     Inr (img,
       \<lparr>t_boxes = \<lparr>trailing = [4], items = []\<rparr>,
        t_labels = \<lparr>trailing = [], items = []\<rparr>,
        t_masks = (if rm then Some \<lparr>trailing = [img_height img, img_width img], items = []\<rparr>
                   else None),
        t_image_id = \<lparr>trailing = [], items = [iid]\<rparr>,
        t_keypoints = None,
        t_area = \<lparr>trailing = [], items = []\<rparr>,
        t_iscrowd = \<lparr>trailing = [], items = []\<rparr>,
        t_orig_size = \<lparr>trailing = [], items = [img_height img, img_width img]\<rparr>,
        t_size = \<lparr>trailing = [], items = [img_height img, img_width img]\<rparr>\<rparr>)"
  using assms
  by (simp add: ConvertCocoPolysToMask_call_def make_boxes_def as_tensor_def
      reshape_rows_def convert_coco_poly_to_mask_def make_keypoints_def index_mask_def
      index_mask_opt_def select_def tensor1_def Let_def)

lemma call_crowd_short_masks:
  "ConvertCocoPolysToMask_call rast True img_640_480 iid [ann_crowd_short] =
     Inr (img_640_480,
       \<lparr>t_boxes = \<lparr>trailing = [4], items = []\<rparr>, t_labels = \<lparr>trailing = [], items = []\<rparr>,
        t_masks = Some \<lparr>trailing = [480, 640], items = []\<rparr>,
        t_image_id = \<lparr>trailing = [], items = [iid]\<rparr>, t_keypoints = None,
        t_area = \<lparr>trailing = [], items = []\<rparr>, t_iscrowd = \<lparr>trailing = [], items = []\<rparr>,
        t_orig_size = \<lparr>trailing = [], items = [480, 640]\<rparr>,
        t_size = \<lparr>trailing = [], items = [480, 640]\<rparr>\<rparr>)"
  by (simp add: call_no_objects not_crowd_def ann_crowd_short_def img_640_480_def)

text \<open>
  Two bboxes of two components reshape into one row of four; the keep-mask then has one
  entry for two labels, and \<^verbatim>\<open>classes[keep]\<close> raises \<^verbatim>\<open>IndexError\<close>.
\<close>

lemma call_pair_pair:
  "ConvertCocoPolysToMask_call rast False img_640_480 iid [ann_pair, ann_pair] = Inl IndexError"
  by (simp add: call_eval ann_pair_def ann_box_def)

lemma rast_blank_shape:
  "\<forall>seg. shape2 (any_dim2 (expand_last (rast_blank seg 1 2))) = [1, 2]"
  by (simp add: rast_blank_def expand_last_def any_dim2_def shape2_def numeral_2_eq_2)

section \<open>Index synchronization\<close>

lemma length_select_keep:
  "length xs = length rows \<Longrightarrow>
     length (select (map keep_row rows) xs) = length (filter keep_row rows)"
  by (simp add: length_select filter_map comp_def)

lemma target_lengths:
  assumes "ConvertCocoPolysToMask_call rast rm img iid annotations = Inr (img', t)"
  shows "\<exists>boxes. make_boxes (img_width img) (img_height img) (filter not_crowd annotations) = Inr boxes \<and>
           length (items (t_boxes t)) = length (filter keep_row (items boxes)) \<and>
           length (items (t_labels t)) = length (filter keep_row (items boxes)) \<and>
           length (items (t_area t)) = length (filter keep_row (items boxes)) \<and>
           length (items (t_iscrowd t)) = length (filter keep_row (items boxes)) \<and>
           (case t_masks t of None \<Rightarrow> \<not> rm
            | Some m \<Rightarrow> rm \<and> length (items m) = length (filter keep_row (items boxes))) \<and>
           (case t_keypoints t of None \<Rightarrow> True
            | Some k \<Rightarrow> length (items k) = length (filter keep_row (items boxes)))"
proof -
  let ?anno = "filter not_crowd annotations"
  from call_Inr [OF assms] obtain boxes classes masks kps areas where
    b: "make_boxes (img_width img) (img_height img) ?anno = Inr boxes" and
    len: "length (items boxes) = length ?anno" and
    c: "map category_id ?anno = map Some classes" and
    m: "if rm then \<exists>segs m. map segmentation ?anno = map Some segs \<and>
                    convert_coco_poly_to_mask rast segs (img_height img) (img_width img) = Inr m \<and>
                    masks = Some m
        else masks = None" and
    a: "map area ?anno = map Some areas" and
    m': "index_mask_opt masks (map keep_row (items boxes)) = Inr (t_masks t)" and
    k': "index_mask_opt kps (map keep_row (items boxes)) = Inr (t_keypoints t)" and
    tb: "t_boxes t = boxes\<lparr>items := filter keep_row (items boxes)\<rparr>" and
    tc: "t_labels t = tensor1 (select (map keep_row (items boxes)) classes)" and
    ta: "t_area t = tensor1 (select (map keep_row (items boxes)) areas)" and
    ti: "t_iscrowd t = tensor1 (select (map keep_row (items boxes))
        (map (\<lambda>obj. case iscrowd obj of Some c \<Rightarrow> c | None \<Rightarrow> 0) ?anno))"
    by blast
  from c len have lc: "length classes = length (items boxes)"
    by (metis length_map)
  from a len have la: "length areas = length (items boxes)"
    by (metis length_map)
  have 1: "length (items (t_boxes t)) = length (filter keep_row (items boxes))"
    by (simp add: tb)
  have 2: "length (items (t_labels t)) = length (filter keep_row (items boxes))"
    by (simp add: tc tensor1_def length_select_keep lc)
  have 3: "length (items (t_area t)) = length (filter keep_row (items boxes))"
    by (simp add: ta tensor1_def length_select_keep la)
  have 4: "length (items (t_iscrowd t)) = length (filter keep_row (items boxes))"
    by (simp add: ti tensor1_def length_select_keep len)
  have 5: "case t_masks t of None \<Rightarrow> \<not> rm
            | Some m \<Rightarrow> rm \<and> length (items m) = length (filter keep_row (items boxes))"
    using m index_mask_opt_Inr [OF m']
    by (auto simp: length_select_keep split: if_splits option.splits)
  have 6: "case t_keypoints t of None \<Rightarrow> True
            | Some k \<Rightarrow> length (items k) = length (filter keep_row (items boxes))"
    using index_mask_opt_Inr [OF k']
    by (auto simp: length_select_keep split: option.splits)
  from b 1 2 3 4 5 6 show ?thesis
    by blast
qed

text \<open>
  Claim C1. Whenever the normalizer returns a target, its boxes, labels, area and iscrowd
  have one common length, the number of rows of the boxes tensor that pass the keep-mask
  (box height > 0 and box width > 0); masks are present exactly in mask mode, and masks
  and keypoints, when present, have that same leading dimension. This includes the case
  where no object survives.
\<close>

theorem index_synchronization:
  assumes "ConvertCocoPolysToMask_call rast rm img iid annotations = Inr (img', t)"
  shows "\<exists>boxes. make_boxes (img_width img) (img_height img) (filter not_crowd annotations) = Inr boxes \<and>
           length (items (t_boxes t)) = length (filter keep_row (items boxes)) \<and>
           length (items (t_labels t)) = length (filter keep_row (items boxes)) \<and>
           length (items (t_area t)) = length (filter keep_row (items boxes)) \<and>
           length (items (t_iscrowd t)) = length (filter keep_row (items boxes)) \<and>
           (case t_masks t of None \<Rightarrow> \<not> rm
            | Some m \<Rightarrow> rm \<and> length (items m) = length (filter keep_row (items boxes))) \<and>
           (case t_keypoints t of None \<Rightarrow> True
            | Some k \<Rightarrow> length (items k) = length (filter keep_row (items boxes)))"
  using assms by (rule target_lengths)

text \<open>The theorem of C1 at an input with masks and keypoints where one of two objects survives.\<close>

theorem index_synchronization_witness:
  "\<exists>t. ConvertCocoPolysToMask_call rast_blank True img_2_1 7 [ann_seg, ann_tiny] = Inr (img_2_1, t) \<and>
     (\<exists>boxes. make_boxes (img_width img_2_1) (img_height img_2_1)
                 (filter not_crowd [ann_seg, ann_tiny]) = Inr boxes \<and>
           length (items (t_boxes t)) = length (filter keep_row (items boxes)) \<and>
           length (items (t_labels t)) = length (filter keep_row (items boxes)) \<and>
           length (items (t_area t)) = length (filter keep_row (items boxes)) \<and>
           length (items (t_iscrowd t)) = length (filter keep_row (items boxes)) \<and>
           (case t_masks t of None \<Rightarrow> \<not> True
            | Some m \<Rightarrow> True \<and> length (items m) = length (filter keep_row (items boxes))) \<and>
           (case t_keypoints t of None \<Rightarrow> True
            | Some k \<Rightarrow> length (items k) = length (filter keep_row (items boxes))))"
  using index_synchronization [OF call_seg_tiny [of 7]] call_seg_tiny [of 7]
  by blast

text \<open>
  Claim C2. On a 640x480 image, the single annotation with the zero-height box
  \<open>[100, 100, 50, 0]\<close> gives a target whose boxes, labels, area and iscrowd have length 0.
\<close>

theorem degenerate_box_dropped:
  "\<exists>t. ConvertCocoPolysToMask_call rast False img_640_480 iid [ann_flat] = Inr (img_640_480, t) \<and>
        length (items (t_boxes t)) = 0 \<and> length (items (t_labels t)) = 0 \<and>
        length (items (t_area t)) = 0 \<and> length (items (t_iscrowd t)) = 0"
  by (simp add: call_ann_flat)

section \<open>Box conversion\<close>

lemma in_bounds_xyxy_float32:
  assumes "length b = 4"
  shows "in_bounds (float32 (real W)) (float32 (real H)) (xyxy_clamped_float32 W H b)"
proof -
  from assms obtain x y bw bh where "b = [x, y, bw, bh]"
    by (auto simp: length_Suc_conv numeral_eq_Suc)
  moreover have "0 \<le> float32 (real W)" "0 \<le> float32 (real H)"
    by (simp_all add: float32_nonneg)
  ultimately show ?thesis
    by (simp add: in_bounds_def)
qed

lemma map_convert_row:
  "list_all (\<lambda>b. length b = 4) bs \<Longrightarrow>
     map (\<lambda>b. convert_row W H (map float32 b)) bs = map (xyxy_clamped_float32 W H) bs"
  by (simp add: list_all_iff convert_row_float32)

text \<open>
  Claim C3, as stated, fails. The x of \<open>ann_fine\<close> is a double that \<^verbatim>\<open>float32\<close> does not
  have: the box of the target starts at 100, not at \<open>x\<close>, and ends at 150, not at
  \<open>x + w\<close>. The zero-height box of \<open>ann_flat\<close>, which is not a crowd region, is not in
  the target at all.
\<close>

theorem boxes_exact_xyxy_counterexample:
  "bbox ann_fine = Some [104857601 / 1048576, 100, 50, 60] \<and>
   ConvertCocoPolysToMask_call rast_blank False img_640_480 7 [ann_fine] =
     Inr (img_640_480,
       \<lparr>t_boxes = \<lparr>trailing = [4], items = [[100, 100, 150, 160]]\<rparr>,
        t_labels = \<lparr>trailing = [], items = [3]\<rparr>,
        t_masks = None, t_image_id = \<lparr>trailing = [], items = [7]\<rparr>, t_keypoints = None,
        t_area = \<lparr>trailing = [], items = [3000]\<rparr>, t_iscrowd = \<lparr>trailing = [], items = [0]\<rparr>,
        t_orig_size = \<lparr>trailing = [], items = [480, 640]\<rparr>,
        t_size = \<lparr>trailing = [], items = [480, 640]\<rparr>\<rparr>) \<and>
   xyxy_clamped 640 480 [104857601 / 1048576, 100, 50, 60] =
     [104857601 / 1048576, 100, 157286401 / 1048576, 160] \<and>
   xyxy_clamped 640 480 [104857601 / 1048576, 100, 50, 60] \<noteq> [100, 100, 150, 160] \<and>
   not_crowd ann_flat \<and> bbox ann_flat = Some [100, 100, 50, 0] \<and>
   ConvertCocoPolysToMask_call rast_blank False img_640_480 7 [ann_flat] =
     Inr (img_640_480,
       \<lparr>t_boxes = \<lparr>trailing = [4], items = []\<rparr>, t_labels = \<lparr>trailing = [], items = []\<rparr>,
        t_masks = None, t_image_id = \<lparr>trailing = [], items = [7]\<rparr>, t_keypoints = None,
        t_area = \<lparr>trailing = [], items = []\<rparr>, t_iscrowd = \<lparr>trailing = [], items = []\<rparr>,
        t_orig_size = \<lparr>trailing = [], items = [480, 640]\<rparr>,
        t_size = \<lparr>trailing = [], items = [480, 640]\<rparr>\<rparr>)"
  by (simp add: call_fine call_ann_flat) (simp add: ann_fine_def ann_flat_def not_crowd_def)

text \<open>
  Claim C3, amended. Lines 85 to 90 turn the 4-component bboxes \<open>(x, y, w, h)\<close> of the
  annotations into the rows \<open>(x, y, x + w, y + h)\<close> computed in \<^verbatim>\<open>float32\<close> (components
  converted, sums rounded), the x-coordinates clamped to \<open>[0, image_width]\<close> and the
  y-coordinates to \<open>[0, image_height]\<close>, the bounds converted as well. The boxes of a
  returned target are these rows for the non-crowd annotations, in order, without the
  rows that the keep-mask drops, and every one of them lies within the bounds. When
  \<open>x\<close>, \<open>y\<close>, \<open>w\<close>, \<open>h\<close>, \<open>x + w\<close> and \<open>y + h\<close> are \<^verbatim>\<open>float32\<close> numbers and the image
  sides are below \<open>2 ^ 24\<close>, the row is exactly \<open>(x, y, x + w, y + h)\<close> clamped to
  \<open>[0, image_width]\<close> and \<open>[0, image_height]\<close>. On a 640x480 image the bbox
  \<open>[100, 100, 50, 60]\<close> yields the boxes \<open>[[100, 100, 150, 160]]\<close>, and the bbox
  \<open>[-10, 470, 700, 50]\<close> yields \<open>[[0, 470, 640, 480]]\<close>.
\<close>

theorem boxes_float32_xyxy_clamped:
  "(map bbox anno = map Some bs \<longrightarrow> list_all (\<lambda>b. length b = 4) bs \<longrightarrow>
      make_boxes W H anno = Inr \<lparr>trailing = [4], items = map (xyxy_clamped_float32 W H) bs\<rparr>) \<and>
   (ConvertCocoPolysToMask_call rast rm img iid annotations = Inr (img', t) \<longrightarrow>
      (\<exists>bs'. map bbox (filter not_crowd annotations) = map Some bs' \<and>
             list_all (\<lambda>b. length b = 4) bs' \<and>
             t_boxes t = \<lparr>trailing = [4],
               items = filter keep_row
                 (map (xyxy_clamped_float32 (img_width img) (img_height img)) bs')\<rparr> \<and>
             list_all (in_bounds (float32 (real (img_width img))) (float32 (real (img_height img))))
               (items (t_boxes t)))) \<and>
   in_bounds (float32 (real W)) (float32 (real H)) (xyxy_clamped_float32 W H [x, y, bw, bh]) \<and>
   (W < 16777216 \<longrightarrow> H < 16777216 \<longrightarrow>
    float32 x = x \<longrightarrow> float32 y = y \<longrightarrow> float32 bw = bw \<longrightarrow> float32 bh = bh \<longrightarrow>
    float32 (x + bw) = x + bw \<longrightarrow> float32 (y + bh) = y + bh \<longrightarrow>
      xyxy_clamped_float32 W H [x, y, bw, bh] = xyxy_clamped W H [x, y, bw, bh] \<and>
      in_bounds (real W) (real H) (xyxy_clamped W H [x, y, bw, bh])) \<and>
   (\<exists>t'. ConvertCocoPolysToMask_call rast' False img_640_480 iid' [ann_box] = Inr (img_640_480, t') \<and>
          items (t_boxes t') = [[100, 100, 150, 160]]) \<and>
   (\<exists>t'. ConvertCocoPolysToMask_call rast' False img_640_480 iid' [ann_over] = Inr (img_640_480, t') \<and>
          items (t_boxes t') = [[0, 470, 640, 480]])"
proof -
  have 1: "make_boxes W H anno = Inr \<lparr>trailing = [4], items = map (xyxy_clamped_float32 W H) bs\<rparr>"
    if bs: "map bbox anno = map Some bs" and all4: "list_all (\<lambda>b. length b = 4) bs"
    using make_boxes_wf [OF bs all4, of W H] map_convert_row [OF all4, of W H]
    by simp
  have 2: "\<exists>bs'. map bbox (filter not_crowd annotations) = map Some bs' \<and>
             list_all (\<lambda>b. length b = 4) bs' \<and>
             t_boxes t = \<lparr>trailing = [4],
               items = filter keep_row
                 (map (xyxy_clamped_float32 (img_width img) (img_height img)) bs')\<rparr> \<and>
             list_all (in_bounds (float32 (real (img_width img))) (float32 (real (img_height img))))
               (items (t_boxes t))"
    if r: "ConvertCocoPolysToMask_call rast rm img iid annotations = Inr (img', t)"
  proof -
    let ?anno = "filter not_crowd annotations"
    let ?f = "xyxy_clamped_float32 (img_width img) (img_height img)"
    from call_Inr [OF r] obtain boxes where
      b: "make_boxes (img_width img) (img_height img) ?anno = Inr boxes" and
      len: "length (items boxes) = length ?anno" and
      tb: "t_boxes t = boxes\<lparr>items := filter keep_row (items boxes)\<rparr>"
      by blast
    from make_boxes_aligned [OF b len] obtain bs' where
      bs': "map bbox ?anno = map Some bs'" and all4: "list_all (\<lambda>b. length b = 4) bs'" and
      boxes: "boxes = \<lparr>trailing = [4],
        items = map (\<lambda>b. convert_row (img_width img) (img_height img) (map float32 b)) bs'\<rparr>"
      by blast
    from tb boxes map_convert_row [OF all4, of "img_width img" "img_height img"]
    have eq: "t_boxes t = \<lparr>trailing = [4], items = filter keep_row (map ?f bs')\<rparr>"
      by simp
    from all4 have "list_all (in_bounds (float32 (real (img_width img))) (float32 (real (img_height img))))
        (map ?f bs')"
      by (simp add: list_all_iff in_bounds_xyxy_float32)
    then have "list_all (in_bounds (float32 (real (img_width img))) (float32 (real (img_height img))))
        (filter keep_row (map ?f bs'))"
      by (auto simp: list_all_iff)
    with eq bs' all4 show ?thesis
      by auto
  qed
  have 3: "in_bounds (float32 (real W)) (float32 (real H)) (xyxy_clamped_float32 W H [x, y, bw, bh])"
    by (rule in_bounds_xyxy_float32) simp
  have 4: "xyxy_clamped_float32 W H [x, y, bw, bh] = xyxy_clamped W H [x, y, bw, bh] \<and>
      in_bounds (real W) (real H) (xyxy_clamped W H [x, y, bw, bh])"
    if "W < 16777216" and "H < 16777216" and "float32 x = x" and "float32 y = y"
      and "float32 bw = bw" and "float32 bh = bh"
      and "float32 (x + bw) = x + bw" and "float32 (y + bh) = y + bh"
    using that by (simp add: float32_of_nat in_bounds_def)
  have 5: "\<exists>t'. ConvertCocoPolysToMask_call rast' False img_640_480 iid' [ann_box] =
      Inr (img_640_480, t') \<and> items (t_boxes t') = [[100, 100, 150, 160]]"
    by (simp add: call_ann_box)
  have 6: "\<exists>t'. ConvertCocoPolysToMask_call rast' False img_640_480 iid' [ann_over] =
      Inr (img_640_480, t') \<and> items (t_boxes t') = [[0, 470, 640, 480]]"
    by (simp add: call_over)
  from 1 2 3 4 5 6 show ?thesis
    by blast
qed

text \<open>
  The amended C3 at the bbox that needs clamping, at a list of two annotations, and at
  the integers of the example.
\<close>

theorem boxes_float32_xyxy_clamped_witness:
  "map bbox [ann_over] = map Some [[- 10, 470, 700, 50]] \<and>
   list_all (\<lambda>b. length b = 4) [[- 10, 470, 700, 50 :: real]] \<and>
   make_boxes 640 480 [ann_over] = Inr \<lparr>trailing = [4], items = [[0, 470, 640, 480]]\<rparr> \<and>
   (\<exists>t. ConvertCocoPolysToMask_call rast_blank False img_640_480 7 [ann_flat, ann_box] =
           Inr (img_640_480, t) \<and>
        (\<exists>bs'. map bbox (filter not_crowd [ann_flat, ann_box]) = map Some bs' \<and>
               list_all (\<lambda>b. length b = 4) bs' \<and>
               t_boxes t = \<lparr>trailing = [4],
                 items = filter keep_row
                   (map (xyxy_clamped_float32 (img_width img_640_480) (img_height img_640_480)) bs')\<rparr> \<and>
               list_all (in_bounds (float32 (real (img_width img_640_480)))
                                (float32 (real (img_height img_640_480))))
                 (items (t_boxes t)))) \<and>
   (640::nat) < 16777216 \<and> (480::nat) < 16777216 \<and>
   float32 100 = 100 \<and> float32 50 = 50 \<and> float32 60 = 60 \<and>
   float32 (100 + 50) = 100 + 50 \<and> float32 (100 + 60) = 100 + 60 \<and>
   xyxy_clamped_float32 640 480 [100, 100, 50, 60] = [100, 100, 150, 160] \<and>
   in_bounds 640 480 (xyxy_clamped 640 480 [100, 100, 50, 60])"
proof -
  have h1: "map bbox [ann_over] = map Some [[- 10, 470, 700, 50]]"
    by (simp add: ann_over_def)
  have h2: "list_all (\<lambda>b. length b = 4) [[- 10, 470, 700, 50 :: real]]"
    by simp
  from boxes_float32_xyxy_clamped [THEN conjunct1, rule_format, OF h1 h2, of 640 480]
  have a: "make_boxes 640 480 [ann_over] = Inr \<lparr>trailing = [4], items = [[0, 470, 640, 480]]\<rparr>"
    by simp
  note b = boxes_float32_xyxy_clamped [THEN conjunct2, THEN conjunct1, rule_format,
    OF call_flat_box [of rast_blank 7]]
  have h3: "(640::nat) < 16777216" "(480::nat) < 16777216"
    "float32 100 = 100" "float32 50 = 50" "float32 60 = 60"
    "float32 (100 + 50) = 100 + 50" "float32 (100 + 60) = 100 + 60"
    by simp_all
  from boxes_float32_xyxy_clamped [THEN conjunct2, THEN conjunct2, THEN conjunct2,
      THEN conjunct1, rule_format, of 640 480 100 100 50 60] h3
  have c: "xyxy_clamped_float32 640 480 [100, 100, 50, 60] = [100, 100, 150, 160] \<and>
      in_bounds 640 480 (xyxy_clamped 640 480 [100, 100, 50, 60])"
    by simp
  from h1 h2 a b h3 c call_flat_box [of rast_blank 7] show ?thesis
    by blast
qed

section \<open>Keypoints\<close>

lemma make_keypoints_first_None:
  "keypoints obj = None \<Longrightarrow> make_keypoints (obj # rest) = Inr None"
  by (simp add: make_keypoints_def)

lemma make_keypoints_first_Some:
  assumes "make_keypoints (obj # rest) = Inr kps" and "keypoints obj = Some k0"
  shows "\<exists>ks. kps = Some \<lparr>trailing = [length k0 div 3, 3], items = ks\<rparr> \<and>
           list_all (\<lambda>p. length p = length k0 div 3 \<and> list_all (\<lambda>q. length q = 3) p) ks"
proof -
  from assms obtain ks rows where
    ks: "map_err (\<lambda>obj. getitem ''keypoints'' (keypoints obj)) (obj # rest) = Inr ks" and
    rows: "as_tensor float32 ks = Inr rows" and
    m3: "length k0 mod 3 = 0" and
    kps: "kps = Some \<lparr>trailing = [length k0 div 3, 3], items = map (chunks 3) rows\<rparr>"
    by (auto simp: make_keypoints_def bind_err_Inr_iff split: if_splits)
  from ks have "map keypoints (obj # rest) = map Some ks"
    by (rule map_err_getitem)
  with assms(2) obtain ks' where ks': "ks = k0 # ks'"
    by (cases ks) auto
  from rows ks' have same: "list_all (\<lambda>k. length k = length k0) rows"
    by (auto simp: as_tensor_def list_all_iff split: if_splits)
  have "length (chunks 3 k) = length k0 div 3 \<and> list_all (\<lambda>q. length q = 3) (chunks 3 k)"
    if "k \<in> set rows" for k
  proof -
    from that same have "length k = length k0"
      by (simp add: list_all_iff)
    with m3 show ?thesis
      by (simp add: length_chunks chunks_all_length)
  qed
  then have "list_all (\<lambda>p. length p = length k0 div 3 \<and> list_all (\<lambda>q. length q = 3) p)
      (map (chunks 3) rows)"
    by (simp add: list_all_iff)
  with kps show ?thesis
    by blast
qed

text \<open>
  Claim C4, as stated, fails: with two objects of which only the second carries keypoints,
  the target has no keypoints entry.
\<close>

theorem keypoints_any_object_counterexample:
  "keypoints ann_kp = Some [110, 120, 2] \<and>
   ConvertCocoPolysToMask_call rast_blank False img_640_480 7 [ann_box, ann_kp] =
     Inr (img_640_480,
       \<lparr>t_boxes = \<lparr>trailing = [4], items = [[100, 100, 150, 160], [100, 100, 150, 160]]\<rparr>,
        t_labels = \<lparr>trailing = [], items = [3, 3]\<rparr>,
        t_masks = None, t_image_id = \<lparr>trailing = [], items = [7]\<rparr>, t_keypoints = None,
        t_area = \<lparr>trailing = [], items = [3000, 3000]\<rparr>, t_iscrowd = \<lparr>trailing = [], items = [0, 0]\<rparr>,
        t_orig_size = \<lparr>trailing = [], items = [480, 640]\<rparr>,
        t_size = \<lparr>trailing = [], items = [480, 640]\<rparr>\<rparr>)"
  by (simp add: call_box_kp) (simp add: ann_kp_def)

text \<open>
  Claim C4, amended. The presence of keypoints in a returned target follows the first
  non-crowd object alone: if there is none, or it carries no keypoints, the key is absent;
  if it carries keypoints of length \<open>3 * K\<close>, the target has a keypoints array of shape
  \<open>N x K x 3\<close>, with \<open>N\<close> the number of boxes of the target.
\<close>

theorem keypoints_follow_first_object:
  assumes "ConvertCocoPolysToMask_call rast rm img iid annotations = Inr (img', t)"
  shows "case filter not_crowd annotations of
           [] \<Rightarrow> t_keypoints t = None
         | obj # rest \<Rightarrow>
             (case keypoints obj of
                None \<Rightarrow> t_keypoints t = None
              | Some k0 \<Rightarrow>
                  (\<exists>k. t_keypoints t = Some k \<and>
                       length (items k) = length (items (t_boxes t)) \<and>
                       trailing k = [length k0 div 3, 3] \<and>
                       list_all (\<lambda>p. length p = length k0 div 3 \<and> list_all (\<lambda>q. length q = 3) p)
                         (items k)))"
proof -
  let ?anno = "filter not_crowd annotations"
  from call_Inr [OF assms] obtain boxes kps where
    k: "make_keypoints ?anno = Inr kps" and
    k': "index_mask_opt kps (map keep_row (items boxes)) = Inr (t_keypoints t)" and
    tb: "t_boxes t = boxes\<lparr>items := filter keep_row (items boxes)\<rparr>"
    by blast
  show ?thesis
  proof (cases ?anno)
    case Nil
    with k have "kps = None"
      by (simp add: make_keypoints_def)
    with k' Nil show ?thesis
      by (simp add: index_mask_opt_def)
  next
    case (Cons obj rest)
    show ?thesis
    proof (cases "keypoints obj")
      case None
      with k Cons have "kps = None"
        by (simp add: make_keypoints_first_None)
      with k' Cons None show ?thesis
        by (simp add: index_mask_opt_def)
    next
      case (Some k0)
      from k Cons have "make_keypoints (obj # rest) = Inr kps"
        by simp
      from make_keypoints_first_Some [OF this Some] obtain ks where
        kps: "kps = Some \<lparr>trailing = [length k0 div 3, 3], items = ks\<rparr>" and
        all: "list_all (\<lambda>p. length p = length k0 div 3 \<and> list_all (\<lambda>q. length q = 3) p) ks"
        by blast
      from index_mask_opt_Inr [OF k'] kps have
        l: "length (items boxes) = length ks" and
        tk: "t_keypoints t = Some \<lparr>trailing = [length k0 div 3, 3],
               items = select (map keep_row (items boxes)) ks\<rparr>"
        by auto
      from all set_select [of "map keep_row (items boxes)" ks]
      have "list_all (\<lambda>p. length p = length k0 div 3 \<and> list_all (\<lambda>q. length q = 3) p)
              (select (map keep_row (items boxes)) ks)"
        by (auto simp: list_all_iff)
      with tk tb l Cons Some show ?thesis
        by (simp add: length_select_keep)
    qed
  qed
qed

text \<open>The amended C4 at an input whose first object carries one keypoint.\<close>

theorem keypoints_follow_first_object_witness:
  "\<exists>t. ConvertCocoPolysToMask_call rast_blank True img_2_1 7 [ann_seg, ann_tiny] = Inr (img_2_1, t) \<and>
     (\<exists>k. t_keypoints t = Some k \<and> length (items k) = length (items (t_boxes t)) \<and>
          trailing k = [1, 3] \<and>
          list_all (\<lambda>p. length p = 1 \<and> list_all (\<lambda>q. length q = 3) p) (items k))"
  using keypoints_follow_first_object [OF call_seg_tiny [of 7]] call_seg_tiny [of 7]
  by (simp add: not_crowd_def ann_seg_def ann_kp_def ann_box_def ann_tiny_def)

section \<open>Empty targets\<close>

lemma convert_trailing:
  assumes "convert_coco_poly_to_mask rast segs h w = Inr m"
    and "\<forall>seg. shape2 (any_dim2 (expand_last (rast seg h w))) = [h, w]"
  shows "trailing m = [h, w]"
  using assms
  by (cases segs) (auto simp: convert_coco_poly_to_mask_def Let_def split: if_splits)

text \<open>
  Claim C7. When no annotation is left after the crowd filter (in particular for an empty
  list), the normalizer returns a target, with boxes of shape \<open>(0, 4)\<close>, labels, area and
  iscrowd of length 0 and, in mask mode, masks of shape \<open>(0, height, width)\<close>. The same
  shapes hold for a returned target in which the keep-mask has dropped every box, the
  masks having trailing shape \<open>(height, width)\<close> when the rasterizer returns bitmaps of
  the image size.
\<close>

theorem empty_target_shapes:
  "(filter not_crowd annotations = [] \<longrightarrow>
      (\<exists>t. ConvertCocoPolysToMask_call rast rm img iid annotations = Inr (img, t) \<and>
           shape (t_boxes t) = [0, 4] \<and> shape (t_labels t) = [0] \<and>
           shape (t_area t) = [0] \<and> shape (t_iscrowd t) = [0] \<and>
           (if rm then \<exists>m. t_masks t = Some m \<and> shape m = [0, img_height img, img_width img]
            else t_masks t = None))) \<and>
   (ConvertCocoPolysToMask_call rast rm img iid annotations = Inr (img', t) \<longrightarrow>
    items (t_boxes t) = [] \<longrightarrow>
      shape (t_boxes t) = [0, 4] \<and> shape (t_labels t) = [0] \<and>
      shape (t_area t) = [0] \<and> shape (t_iscrowd t) = [0] \<and>
      (if rm
       then (\<forall>seg. shape2 (any_dim2 (expand_last (rast seg (img_height img) (img_width img)))) =
                     [img_height img, img_width img]) \<longrightarrow>
            (\<exists>m. t_masks t = Some m \<and> shape m = [0, img_height img, img_width img])
       else t_masks t = None))"
proof (rule conjI; intro impI)
  assume "filter not_crowd annotations = []"
  from call_no_objects [OF this, of rast rm img iid]
  show "\<exists>t. ConvertCocoPolysToMask_call rast rm img iid annotations = Inr (img, t) \<and>
           shape (t_boxes t) = [0, 4] \<and> shape (t_labels t) = [0] \<and>
           shape (t_area t) = [0] \<and> shape (t_iscrowd t) = [0] \<and>
           (if rm then \<exists>m. t_masks t = Some m \<and> shape m = [0, img_height img, img_width img]
            else t_masks t = None)"
    by (simp add: shape_def)
next
  assume r: "ConvertCocoPolysToMask_call rast rm img iid annotations = Inr (img', t)"
    and e: "items (t_boxes t) = []"
  let ?anno = "filter not_crowd annotations"
  let ?h = "img_height img" and ?w = "img_width img"
  from call_Inr [OF r] obtain boxes classes masks areas where
    b: "make_boxes ?w ?h ?anno = Inr boxes" and
    m: "if rm then \<exists>segs m. map segmentation ?anno = map Some segs \<and>
                    convert_coco_poly_to_mask rast segs ?h ?w = Inr m \<and> masks = Some m
        else masks = None" and
    m': "index_mask_opt masks (map keep_row (items boxes)) = Inr (t_masks t)" and
    tb: "t_boxes t = boxes\<lparr>items := filter keep_row (items boxes)\<rparr>" and
    tc: "t_labels t = tensor1 (select (map keep_row (items boxes)) classes)" and
    ta: "t_area t = tensor1 (select (map keep_row (items boxes)) areas)" and
    ti: "t_iscrowd t = tensor1 (select (map keep_row (items boxes))
        (map (\<lambda>obj. case iscrowd obj of Some c \<Rightarrow> c | None \<Rightarrow> 0) ?anno))"
    by blast
  from target_lengths [OF r] e have
    l: "items (t_labels t) = []" "items (t_area t) = []" "items (t_iscrowd t) = []" and
    lm: "case t_masks t of None \<Rightarrow> \<not> rm | Some m \<Rightarrow> rm \<and> items m = []"
    by (auto split: option.splits)
  from make_boxes_Inr [OF b] have "trailing boxes = [4]"
    by auto
  with tb e have 1: "shape (t_boxes t) = [0, 4]"
    by (simp add: shape_def)
  from l tc ta ti have 2: "shape (t_labels t) = [0]" "shape (t_area t) = [0]"
      "shape (t_iscrowd t) = [0]"
    by (simp_all add: shape_def tensor1_def)
  have 3: "if rm
       then (\<forall>seg. shape2 (any_dim2 (expand_last (rast seg ?h ?w))) = [?h, ?w]) \<longrightarrow>
            (\<exists>m. t_masks t = Some m \<and> shape m = [0, ?h, ?w])
       else t_masks t = None"
  proof (cases rm)
    case False
    with lm show ?thesis
      by (simp split: option.splits)
  next
    case True
    with m obtain segs m0 where
      c: "convert_coco_poly_to_mask rast segs ?h ?w = Inr m0" and ms: "masks = Some m0"
      by auto
    from index_mask_opt_Inr [OF m'] ms have
      tm: "t_masks t = Some (m0\<lparr>items := select (map keep_row (items boxes)) (items m0)\<rparr>)"
      by simp
    with lm have "select (map keep_row (items boxes)) (items m0) = []"
      by simp
    with tm True show ?thesis
      by (auto simp: shape_def dest: convert_trailing [OF c])
  qed
  from 1 2 3 show "shape (t_boxes t) = [0, 4] \<and> shape (t_labels t) = [0] \<and>
      shape (t_area t) = [0] \<and> shape (t_iscrowd t) = [0] \<and>
      (if rm
       then (\<forall>seg. shape2 (any_dim2 (expand_last (rast seg ?h ?w))) = [?h, ?w]) \<longrightarrow>
            (\<exists>m. t_masks t = Some m \<and> shape m = [0, ?h, ?w])
       else t_masks t = None)"
    by blast
qed

text \<open>The theorem of C7 at a list with only a crowd region, and at an object that clamping makes degenerate.\<close>

theorem empty_target_shapes_witness:
  "filter not_crowd [ann_crowd_short] = [] \<and>
   (\<exists>t. ConvertCocoPolysToMask_call rast_blank True img_640_480 7 [ann_crowd_short] =
           Inr (img_640_480, t) \<and>
        shape (t_boxes t) = [0, 4] \<and> shape (t_labels t) = [0] \<and>
        shape (t_area t) = [0] \<and> shape (t_iscrowd t) = [0] \<and>
        (\<exists>m. t_masks t = Some m \<and> shape m = [0, 480, 640])) \<and>
   (\<exists>t. ConvertCocoPolysToMask_call rast_blank True img_2_1 7 [ann_seg] = Inr (img_2_1, t) \<and>
        items (t_boxes t) = [] \<and>
        shape (t_boxes t) = [0, 4] \<and> shape (t_labels t) = [0] \<and>
        shape (t_area t) = [0] \<and> shape (t_iscrowd t) = [0] \<and>
        (\<exists>m. t_masks t = Some m \<and> shape m = [0, 1, 2]))"
proof -
  have h: "filter not_crowd [ann_crowd_short] = []"
    by (simp add: not_crowd_def ann_crowd_short_def)
  from empty_target_shapes [THEN conjunct1, rule_format, OF h, of rast_blank True img_640_480 7]
  have a: "\<exists>t. ConvertCocoPolysToMask_call rast_blank True img_640_480 7 [ann_crowd_short] =
           Inr (img_640_480, t) \<and>
        shape (t_boxes t) = [0, 4] \<and> shape (t_labels t) = [0] \<and>
        shape (t_area t) = [0] \<and> shape (t_iscrowd t) = [0] \<and>
        (\<exists>m. t_masks t = Some m \<and> shape m = [0, 480, 640])"
    by (simp add: img_640_480_def)
  obtain t where
    t: "ConvertCocoPolysToMask_call rast_blank True img_2_1 7 [ann_seg] = Inr (img_2_1, t)"
      "items (t_boxes t) = []"
    using call_seg [of 7] by simp
  from empty_target_shapes [THEN conjunct2, rule_format, OF t] rast_blank_shape
  have "shape (t_boxes t) = [0, 4] \<and> shape (t_labels t) = [0] \<and>
        shape (t_area t) = [0] \<and> shape (t_iscrowd t) = [0] \<and>
        (\<exists>m. t_masks t = Some m \<and> shape m = [0, 1, 2])"
    by (simp add: img_2_1_def)
  with t have b: "\<exists>t. ConvertCocoPolysToMask_call rast_blank True img_2_1 7 [ann_seg] = Inr (img_2_1, t) \<and>
        items (t_boxes t) = [] \<and>
        shape (t_boxes t) = [0, 4] \<and> shape (t_labels t) = [0] \<and>
        shape (t_area t) = [0] \<and> shape (t_iscrowd t) = [0] \<and>
        (\<exists>m. t_masks t = Some m \<and> shape m = [0, 1, 2])"
    by blast
  from h a b show ?thesis
    by blast
qed

section \<open>Malformed boxes\<close>

text \<open>
  Claim C8, as stated, fails: a crowd region whose bbox has three components is dropped
  before its bbox is read, and a target is returned.
\<close>

theorem malformed_crowd_bbox_counterexample:
  "bbox ann_crowd_short = Some [1, 2, 3] \<and>
   ConvertCocoPolysToMask_call rast_blank False img_640_480 7 [ann_crowd_short] =
     Inr (img_640_480,
       \<lparr>t_boxes = \<lparr>trailing = [4], items = []\<rparr>, t_labels = \<lparr>trailing = [], items = []\<rparr>,
        t_masks = None, t_image_id = \<lparr>trailing = [], items = [7]\<rparr>, t_keypoints = None,
        t_area = \<lparr>trailing = [], items = []\<rparr>, t_iscrowd = \<lparr>trailing = [], items = []\<rparr>,
        t_orig_size = \<lparr>trailing = [], items = [480, 640]\<rparr>,
        t_size = \<lparr>trailing = [], items = [480, 640]\<rparr>\<rparr>)"
  by (simp add: call_crowd_short) (simp add: ann_crowd_short_def)

text \<open>
  Claim C8, amended. If an annotation that passes the crowd filter has a bbox whose number
  of components is not 4, the normalizer raises an error and returns no target.
\<close>

theorem malformed_bbox_raises:
  assumes "obj \<in> set annotations" and "not_crowd obj" and "bbox obj = Some b" and "length b \<noteq> 4"
  shows "\<exists>e. ConvertCocoPolysToMask_call rast rm img iid annotations = Inl e"
proof (rule ccontr)
  assume "\<nexists>e. ConvertCocoPolysToMask_call rast rm img iid annotations = Inl e"
  then obtain img' t where
    r: "ConvertCocoPolysToMask_call rast rm img iid annotations = Inr (img', t)"
    by (cases "ConvertCocoPolysToMask_call rast rm img iid annotations") auto
  let ?anno = "filter not_crowd annotations"
  from call_Inr [OF r] obtain boxes where
    b: "make_boxes (img_width img) (img_height img) ?anno = Inr boxes" and
    len: "length (items boxes) = length ?anno"
    by blast
  from make_boxes_aligned [OF b len] obtain bs where
    bs: "map bbox ?anno = map Some bs" and all4: "list_all (\<lambda>b. length b = 4) bs"
    by blast
  from assms(1,2) have "bbox obj \<in> set (map bbox ?anno)"
    by simp
  with bs assms(3) have "b \<in> set bs"
    by auto
  with all4 have "length b = 4"
    by (simp add: list_all_iff)
  with assms(4) show False
    by simp
qed

text \<open>The amended C8 at a list whose second object has a bbox of three components.\<close>

theorem malformed_bbox_raises_witness:
  "ann_short \<in> set [ann_box, ann_short] \<and> not_crowd ann_short \<and>
   bbox ann_short = Some [1, 2, 3] \<and> length [1, 2, 3 :: real] \<noteq> 4 \<and>
   (\<exists>e. ConvertCocoPolysToMask_call rast_blank False img_640_480 7 [ann_box, ann_short] = Inl e)"
proof -
  have h: "ann_short \<in> set [ann_box, ann_short]" "not_crowd ann_short"
    "bbox ann_short = Some [1, 2, 3]" "length [1, 2, 3 :: real] \<noteq> 4"
    by (simp_all add: ann_short_def ann_crowd_short_def not_crowd_def)
  from malformed_bbox_raises [OF h, of rast_blank False img_640_480 7] h show ?thesis
    by blast
qed

section \<open>Pipelines per split\<close>

text \<open>
  Claim C5, as stated, fails: for the split \<open>extra\<close> without the fixed-size flag the
  pipeline is the normalize step alone, and it contains no flip.
\<close>

theorem extra_without_fix_size_counterexample:
  "make_coco_transforms ''extra'' False = Inr (Compose [normalize]) \<and>
   \<not> has_flip (Compose [normalize])"
  by (simp add: make_coco_transforms_def normalize_def)

text \<open>
  Claim C5, amended. For the split \<open>extra\<close> the pipeline is flip, then a resize to
  \<open>(600, 600)\<close>, then normalize when the fixed-size flag is set, and normalize alone
  otherwise.
\<close>

theorem extra_pipeline:
  "make_coco_transforms ''extra'' fix_size =
     Inr (if fix_size
          then Compose [RandomHorizontalFlip, RandomResize [Pair 600 600] (Max_size None), normalize]
          else Compose [normalize])"
  by (simp add: make_coco_transforms_def)

text \<open>
  Claim C9. For a split name other than \<open>train\<close>, \<open>extra\<close> and \<open>val\<close>,
  \<open>make_coco_transforms\<close> raises \<open>ValueError\<close>, and \<open>build\<close> raises too (a \<open>KeyError\<close>
  from the lookup of the paths, before the pipeline is made): no pipeline is returned.
\<close>

theorem unknown_split_raises:
  assumes "image_set \<notin> {''train'', ''extra'', ''val''}"
  shows "make_coco_transforms image_set fix_size = Inl (ValueError (''unknown '' @ image_set)) \<and>
         build tv_open image_set args img_ids class_ids = Inl (KeyError image_set)"
  using assms by (simp add: make_coco_transforms_def build_def get_paths_def)

text \<open>The theorem of C9 at the split name \<open>test\<close>.\<close>

theorem unknown_split_raises_witness:
  "''test'' \<notin> {''train'', ''extra'', ''val''} \<and>
   make_coco_transforms ''test'' False = Inl (ValueError ''unknown test'') \<and>
   build (\<lambda>img_folder ann_file. tv_two_cats) ''test''
     \<lparr>args_Sampling_strategy = ''icarl'', args_masks = False\<rparr> None (Some [5]) =
     Inl (KeyError ''test'')"
  using unknown_split_raises [of "''test''" False "\<lambda>img_folder ann_file. tv_two_cats"
      "\<lparr>args_Sampling_strategy = ''icarl'', args_masks = False\<rparr>" None "Some [5]"]
  by simp

section \<open>The category catalog of a view\<close>

text \<open>
  Claim C6 says that a view can be constructed with \<open>class_ids\<close> omitted. In the code,
  \<open>class_ids = None\<close> never yields a view: either the base class raises, or the loop over
  \<open>class_ids\<close> raises \<open>TypeError\<close>.
\<close>

theorem class_ids_None_raises:
  "CocoDetection_init tv_init transforms_arg return_masks img_ids None =
     Inl (case tv_init img_ids None of Inl e \<Rightarrow> e | Inr self \<Rightarrow> TypeError)"
  by (cases "tv_init img_ids None") (simp_all add: CocoDetection_init_def)

lemma cats_loop_apply:
  "cats_loop src cs acc k =
     (if k \<in> set cs then (case src k of Some m \<Rightarrow> Some m | None \<Rightarrow> acc k) else acc k)"
  by (induction cs arbitrary: acc) (auto split: option.splits)

lemma cats_loop_empty: "cats_loop src cs Map.empty = src |` set cs"
  by (rule ext) (simp add: cats_loop_apply restrict_map_def split: option.splits)

text \<open>
  Claim C10. When the base class has been initialised and \<open>class_ids\<close> is given, the view
  is constructed without error, and its catalog is the catalog of the store restricted to
  \<open>class_ids\<close>: its ids are exactly those in both; a requested id that the store does not
  have is passed over.
\<close>

theorem category_filter_closure:
  assumes "tv_init img_ids (Some cs) = Inr self"
  shows "\<exists>ds. CocoDetection_init tv_init transforms_arg return_masks img_ids (Some cs) = Inr ds \<and>
              coco_cats ds = coco_cats self |` set cs \<and>
              dom (coco_cats ds) = set cs \<inter> dom (coco_cats self)"
  using assms by (auto simp: CocoDetection_init_def cats_loop_empty)

text \<open>The theorem of C10 at \<open>class_ids = [5, 999]\<close> over a store with the categories 5 and 7.\<close>

theorem category_filter_closure_witness:
  "tv_two_cats None (Some [5, 999]) = Inr \<lparr>ids = [1, 2], coco_cats = [5 \<mapsto> ''stop'', 7 \<mapsto> ''yield'']\<rparr> \<and>
   (\<exists>ds. CocoDetection_init tv_two_cats None False None (Some [5, 999]) = Inr ds \<and>
         dom (coco_cats ds) = {5})"
  using category_filter_closure [of tv_two_cats None "[5, 999]"
      "\<lparr>ids = [1, 2], coco_cats = [5 \<mapsto> ''stop'', 7 \<mapsto> ''yield'']\<rparr>" None False]
  by (auto simp: tv_two_cats_def)

end
